theory Spec2Isabelle
  imports Main "HOL-Library.Sublist"
begin

section \<open>JavaScript values used by the downloader\<close>

text \<open>
  The sources are \<^verbatim>\<open>scripts/download-channel\<close> (class \<^verbatim>\<open>DownloadChannel\<close>) and
  \<^verbatim>\<open>modules/messages.js\<close>. Strings are byte lists; a glyph is its UTF-8 encoding.
  An optional field that JavaScript reads as \<^verbatim>\<open>undefined\<close> is \<open>None\<close>.
\<close>

text \<open>A thrown \<^verbatim>\<open>Error\<close>, with its \<^verbatim>\<open>message\<close>.\<close>

datatype error = Error (message: string)

text \<open>Truthiness of an optional string: \<^verbatim>\<open>undefined\<close> and \<^verbatim>\<open>""\<close> are falsy.\<close>

definition truthy :: "string option \<Rightarrow> bool" where
  "truthy v = (case v of None \<Rightarrow> False | Some s \<Rightarrow> s \<noteq> [])"

text \<open>\<^verbatim>\<open>v || d\<close> on an optional string.\<close>

definition or_else :: "string option \<Rightarrow> string \<Rightarrow> string" where
  "or_else v d = (case v of None \<Rightarrow> d | Some s \<Rightarrow> if s = [] then d else s)"

text \<open>An optional string inside a template literal: \<^verbatim>\<open>`${v}`\<close>.\<close>

definition template :: "string option \<Rightarrow> string" where
  "template v = (case v of None \<Rightarrow> ''undefined'' | Some s \<Rightarrow> s)"

text \<open>\<^verbatim>\<open>s.includes(sub)\<close>.\<close>

fun str_includes :: "string \<Rightarrow> string \<Rightarrow> bool" where
  "str_includes [] sub = (sub = [])"
| "str_includes (c # cs) sub = (prefix sub (c # cs) \<or> str_includes cs sub)"

text \<open>The decimal digits, as the pattern \<^verbatim>\<open>\d\<close> matches them.\<close>

definition is_digit :: "char \<Rightarrow> bool" where
  "is_digit c = (c \<in> set ''0123456789'')"

definition digit_value :: "char \<Rightarrow> int" where
  "digit_value c = int (of_char c) - 48"

definition digit_char :: "nat \<Rightarrow> char" where
  "digit_char d = ''0123456789'' ! d"

text \<open>A natural number inside a template literal: its decimal digits.\<close>

function string_of_nat :: "nat \<Rightarrow> string" where
  "string_of_nat n =
     (if n < 10 then [digit_char n] else string_of_nat (n div 10) @ [digit_char (n mod 10)])"
  by pat_completeness auto
termination
  by (relation "measure (\<lambda>n. n)") auto

declare string_of_nat.simps [simp del]

definition string_of_int :: "int \<Rightarrow> string" where
  "string_of_int i = (if i < 0 then CHR ''-'' # string_of_nat (nat (- i)) else string_of_nat (nat i))"

text \<open>\<^verbatim>\<open>xs.join(sep)\<close> on an array of strings.\<close>

fun join :: "string \<Rightarrow> string list \<Rightarrow> string" where
  "join sep [] = []"
| "join sep [x] = x"
| "join sep (x # y # ys) = x @ sep @ join sep (y # ys)"

text \<open>
  What \<^verbatim>\<open>trim\<close> strips, in UTF-8: the white space and the line terminators of ECMAScript,
  that is U+0009 to U+000D, U+0020, U+00A0, U+1680, U+2000 to U+200A, U+2028, U+2029,
  U+202F, U+205F, U+3000 and U+FEFF.
\<close>

definition white_space :: "string list" where
  "white_space =
     [CHR 0x09] # [CHR 0x0A] # [CHR 0x0B] # [CHR 0x0C] # [CHR 0x0D] # [CHR 0x20] #
     [CHR 0xC2, CHR 0xA0] # [CHR 0xE1, CHR 0x9A, CHR 0x80] #
     [CHR 0xE2, CHR 0x80, CHR 0x80] # [CHR 0xE2, CHR 0x80, CHR 0x81] #
     [CHR 0xE2, CHR 0x80, CHR 0x82] # [CHR 0xE2, CHR 0x80, CHR 0x83] #
     [CHR 0xE2, CHR 0x80, CHR 0x84] # [CHR 0xE2, CHR 0x80, CHR 0x85] #
     [CHR 0xE2, CHR 0x80, CHR 0x86] # [CHR 0xE2, CHR 0x80, CHR 0x87] #
     [CHR 0xE2, CHR 0x80, CHR 0x88] # [CHR 0xE2, CHR 0x80, CHR 0x89] #
     [CHR 0xE2, CHR 0x80, CHR 0x8A] # [CHR 0xE2, CHR 0x80, CHR 0xA8] #
     [CHR 0xE2, CHR 0x80, CHR 0xA9] # [CHR 0xE2, CHR 0x80, CHR 0xAF] #
     [CHR 0xE2, CHR 0x81, CHR 0x9F] # [CHR 0xE3, CHR 0x80, CHR 0x80] #
     [CHR 0xEF, CHR 0xBB, CHR 0xBF] # []"

text \<open>The number of bytes of the white space character a string starts with, 0 if none.\<close>

definition leading_space :: "string \<Rightarrow> nat" where
  "leading_space s =
     (case find (\<lambda>ws. prefix ws s) white_space of None \<Rightarrow> 0 | Some ws \<Rightarrow> length ws)"

text \<open>
  \<^verbatim>\<open>s.trim()\<close> is non-empty, hence truthy, exactly when something is left of \<open>s\<close> once the
  white space it starts with is gone.
\<close>

function trim_nonempty :: "string \<Rightarrow> bool" where
  "trim_nonempty s =
     (if s = [] then False
      else if leading_space s = 0 then True
      else trim_nonempty (drop (leading_space s) s))"
  by pat_completeness auto
termination
  by (relation "measure length") auto

declare trim_nonempty.simps [simp del]

section \<open>Data model\<close>

text \<open>
  A message is read field by field (\<^verbatim>\<open>message.media\<close>, \<^verbatim>\<open>message.media.poll\<close>, ...), so
  it is a record of optional fields. Fields that the code only tests for truthiness are
  booleans. Coordinates are kept as the text a template literal prints for them.
\<close>

record poll_payload =
  question :: string
  answers :: "string list"  \<comment> \<open>the \<^verbatim>\<open>text\<close> of each answer\<close>

record geo_payload =
  lat :: string
  long :: string

record contact_payload =
  firstName :: string
  lastName :: "string option"
  phoneNumber :: string

record venue_payload =
  venue_title :: string
  address :: string

record webpage_payload =
  url :: "string option"
  webpage_title :: "string option"
  description :: "string option"
  webpage_photo :: bool

record document_info =
  attributes :: "string list option"
  mimeType :: "string option"

record media =
  webpage :: "webpage_payload option"
  poll :: "poll_payload option"
  geo :: "geo_payload option"
  contact :: "contact_payload option"
  venue :: "venue_payload option"
  photo :: bool
  document :: "document_info option"
  video :: bool
  audio :: bool
  voice :: bool
  videoNote :: bool

record message =
  msg_id :: int
  msg_message :: "string option"
  msg_entities :: "string list option"
  msg_media :: "media option"
  msg_sticker :: bool
  msg_document :: bool
  msg_photo :: bool
  msg_video :: bool
  msg_audio :: bool
  msg_voice :: bool
  msg_poll :: bool
  msg_geo :: bool
  msg_contact :: bool
  msg_venue :: bool
  msg_webpage :: bool

text \<open>What \<^verbatim>\<open>uploadOptions.file\<close> can hold: a local path or an object of the message.\<close>

datatype file_arg =
  LocalFile string | PhotoRef | DocumentRef | VideoRef | AudioRef | VoiceRef | StickerRef

record upload_options =
  opt_message :: string
  opt_entities :: "string list"
  opt_silent :: bool
  opt_workers :: int
  opt_chunkSize :: int
  opt_file :: "file_arg option"
  opt_supportsStreaming :: bool
  opt_attributes :: "string list option"
  opt_mimeType :: "string option"
  opt_videoNote :: bool
  opt_voiceNote :: bool
  opt_sticker :: bool

text \<open>
  The calls that leave the process, in the order they are made. \<open>Wait ms\<close> is
  \<^verbatim>\<open>this.wait(ms)\<close>, which sleeps \<open>ms\<close> milliseconds plus a random jitter below 500.
  \<open>DownloadMedia\<close> is the byte transfer of the media branch of \<^verbatim>\<open>downloadMessageMedia\<close>,
  \<open>DownloadSticker\<close> the one of its sticker branch. \<open>FetchPage offset\<close> marks
  \<^verbatim>\<open>downloadChannel\<close> entered with that \<^verbatim>\<open>offsetMsgId\<close>, which it passes to \<^verbatim>\<open>getMessages\<close>.
  Calls of the logger are not recorded.
\<close>

datatype effect =
    Wait int
  | WriteFile string
  | DownloadMedia int string
  | DownloadSticker int string
  | ForwardMessages int int
  | SendMessage int upload_options
  | Unlink string
  | FetchPage int

text \<open>
  The fields of the \<^verbatim>\<open>DownloadChannel\<close> object, together with the files on disk and the
  calls made so far. The download policy \<^verbatim>\<open>downloadableFiles\<close> is \<^verbatim>\<open>null\<close> or a mapping from
  tokens to flags.
\<close>

record world =
  outputFolder :: string
  uploadMode :: bool
  targetChannelId :: "int option"
  downloadableFiles :: "(string \<rightharpoonup> bool) option"
  requestCount :: int
  lastRequestTime :: int
  totalDownloaded :: int
  totalUploaded :: int
  totalMessages :: int
  totalProcessedMessages :: int
  skippedFiles :: int
  disk :: "string set"
  effects :: "effect list"

text \<open>The object as the constructor leaves it (lines 44-61), on a given disk.\<close>

definition constructor :: "string set \<Rightarrow> world" where
  "constructor d =
     \<lparr>outputFolder = [], uploadMode = False, targetChannelId = None,
      downloadableFiles = None, requestCount = 0, lastRequestTime = 0,
      totalDownloaded = 0, totalUploaded = 0, totalMessages = 0,
      totalProcessedMessages = 0, skippedFiles = 0, disk = d, effects = []\<rparr>"

definition emit :: "effect \<Rightarrow> world \<Rightarrow> world" where
  "emit e w = w\<lparr>effects := effects w @ [e]\<rparr>"

text \<open>
  What the code takes from outside. \<^verbatim>\<open>getMediaType\<close> and \<^verbatim>\<open>getMediaPath\<close> are helpers of
  \<^verbatim>\<open>utils/helper\<close>, \<^verbatim>\<open>path_extname\<close>, \<^verbatim>\<open>path_dirname\<close> and \<^verbatim>\<open>path_join\<close> are Node's,
  \<^verbatim>\<open>toLowerCase\<close> is the method of JavaScript's strings; they are taken to return. The remaining fields say how a call to the file system or
  to the Telegram client ends, given everything that happened before it: \<open>None\<close> or
  \<open>Inr\<close> when it returns (\<open>Inr b\<close>: a value of truthiness \<open>b\<close>), an error when it throws.
\<close>

record env =
  getMediaType :: "message \<Rightarrow> string"
  getMediaPath :: "message \<Rightarrow> string \<Rightarrow> string"
  path_extname :: "string \<Rightarrow> string"
  path_dirname :: "string \<Rightarrow> string"
  path_join :: "string \<Rightarrow> string \<Rightarrow> string"
  toLowerCase :: "string \<Rightarrow> string"
  fs_writeFileSync :: "world \<Rightarrow> string \<Rightarrow> error option"
  fs_unlinkSync :: "world \<Rightarrow> string \<Rightarrow> error option"
  client_downloadMedia :: "world \<Rightarrow> message \<Rightarrow> string \<Rightarrow> error option"
  client_forwardMessages :: "world \<Rightarrow> int \<Rightarrow> message \<Rightarrow> error + bool"
  client_sendMessage :: "world \<Rightarrow> int \<Rightarrow> upload_options \<Rightarrow> error + bool"

section \<open>Constants (lines 32-38)\<close>

definition MAX_PARALLEL_PROCESS :: nat where "MAX_PARALLEL_PROCESS = 5"
definition MESSAGE_LIMIT :: nat where "MESSAGE_LIMIT = 100"
definition RATE_LIMIT_DELAY :: int where "RATE_LIMIT_DELAY = 1500"
definition DOWNLOAD_DELAY :: int where "DOWNLOAD_DELAY = 200"
definition UPLOAD_DELAY :: int where "UPLOAD_DELAY = 300"
definition MAX_RETRIES :: nat where "MAX_RETRIES = 3"
definition BACKOFF_BASE :: int where "BACKOFF_BASE = 1000"

section \<open>Rate governor\<close>

text \<open>
  \<^verbatim>\<open>checkRateLimit\<close> (lines 70-82). \<open>now\<close> is the reading of \<^verbatim>\<open>Date.now()\<close> on entry, in
  milliseconds.
\<close>

definition checkRateLimit :: "world \<Rightarrow> int \<Rightarrow> world" where
  "checkRateLimit w now =
     (let timeSinceLastRequest = now - lastRequestTime w;
          w1 = (if requestCount w > 15 \<and> timeSinceLastRequest < 60000
                then (emit (Wait 60000) w)\<lparr>requestCount := 0\<rparr>
                else w)
      in w1\<lparr>lastRequestTime := now, requestCount := requestCount w1 + 1\<rparr>)"

text \<open>A run of gated calls, one per clock reading.\<close>

definition admit_all :: "world \<Rightarrow> int list \<Rightarrow> world" where
  "admit_all w nows = foldl checkRateLimit w nows"

text \<open>Whether the \<open>k\<close>-th gated call of a run (counted from 0) went through the 60 s wait.\<close>

definition cooled :: "world \<Rightarrow> int list \<Rightarrow> nat \<Rightarrow> bool" where
  "cooled w nows k =
     (effects (admit_all w (take (Suc k) nows)) \<noteq> effects (admit_all w (take k nows)))"

text \<open>
  The rule in the words of the specification: more than 15 gated calls have occurred
  within the 60 seconds before the \<open>k\<close>-th call.
\<close>

definition calls_in_window :: "int list \<Rightarrow> nat \<Rightarrow> nat" where
  "calls_in_window nows k = length (filter (\<lambda>j. nows ! k - nows ! j < 60000) [0..<k])"

definition sliding_window_rule :: "int list \<Rightarrow> nat \<Rightarrow> bool" where
  "sliding_window_rule nows k = (15 < calls_in_window nows k)"

text \<open>
  The rule of the code, read off a run: the calls counted since the last wait (the call
  that waited included), or all of them when no call waited yet, and the clock reading of
  the call before.
\<close>

definition counted_calls :: "world \<Rightarrow> int list \<Rightarrow> nat \<Rightarrow> nat" where
  "counted_calls w nows k =
     (case filter (cooled w nows) (rev [0..<k]) of [] \<Rightarrow> k | j # _ \<Rightarrow> k - j)"

definition previous_call :: "int list \<Rightarrow> nat \<Rightarrow> int" where
  "previous_call nows k = (if k = 0 then 0 else nows ! (k - 1))"

text \<open>Seventeen gated calls, 59 seconds apart.\<close>

definition spaced_calls :: "int list" where
  "spaced_calls = map (\<lambda>k. 1700000000000 + 59000 * int k) [0..<17]"

section \<open>Content classifier\<close>

text \<open>\<^verbatim>\<open>hasContent\<close> (lines 115-131).\<close>

definition hasContent :: "message \<Rightarrow> bool" where
  "hasContent m =
     (truthy (msg_message m) \<or> msg_media m \<noteq> None \<or> msg_sticker m \<or> msg_document m \<or>
      msg_photo m \<or> msg_video m \<or> msg_audio m \<or> msg_voice m \<or> msg_poll m \<or> msg_geo m \<or>
      msg_contact m \<or> msg_venue m \<or> msg_webpage m)"

text \<open>Truthiness of \<^verbatim>\<open>this.downloadableFiles?.[key]\<close>.\<close>

definition policy_flag :: "(string \<rightharpoonup> bool) option \<Rightarrow> string \<Rightarrow> bool" where
  "policy_flag p key =
     (case p of None \<Rightarrow> False | Some f \<Rightarrow> (case f key of None \<Rightarrow> False | Some b \<Rightarrow> b))"

text \<open>
  \<^verbatim>\<open>path.extname(mediaPath).toLowerCase().replace(".", "")\<close>: \<^verbatim>\<open>replace\<close> with a string
  pattern removes the first occurrence only.
\<close>

definition extension_of :: "env \<Rightarrow> string \<Rightarrow> string" where
  "extension_of env mediaPath =
     remove1 (CHR ''.'') (toLowerCase env (path_extname env mediaPath))"

text \<open>\<^verbatim>\<open>shouldProcess\<close> (lines 136-154); the result is read for its truthiness.\<close>

definition shouldProcess :: "env \<Rightarrow> world \<Rightarrow> message \<Rightarrow> bool" where
  "shouldProcess env w m =
     (if \<not> hasContent m then False
      else if truthy (msg_message m) \<and> msg_media m = None then True
      else if msg_media m \<noteq> None then
        (let mediaType = getMediaType env m;
             mediaPath = getMediaPath env m (outputFolder w);
             extension = extension_of env mediaPath
         in policy_flag (downloadableFiles w) mediaType \<or>
            policy_flag (downloadableFiles w) extension \<or>
            policy_flag (downloadableFiles w) ''all'')
      else True)"

section \<open>Media transfer\<close>

text \<open>\<^verbatim>\<open>path.join(path.dirname(mediaPath), name)\<close>.\<close>

definition sibling :: "env \<Rightarrow> string \<Rightarrow> string \<Rightarrow> string" where
  "sibling env mediaPath name = path_join env (path_dirname env mediaPath) name"

text \<open>
  \<^verbatim>\<open>fs.writeFileSync(p, ...)\<close> with the serialisation of its content: on return the file
  exists.
\<close>

definition writeFile :: "env \<Rightarrow> world \<Rightarrow> string \<Rightarrow> error option \<times> world" where
  "writeFile env w p =
     (let w1 = emit (WriteFile p) w
      in case fs_writeFileSync env w1 p of
           None \<Rightarrow> (None, w1\<lparr>disk := insert p (disk w1)\<rparr>)
         | Some e \<Rightarrow> (Some e, w1))"

text \<open>A sidecar file followed by \<^verbatim>\<open>return true\<close> (lines 74-112).\<close>

definition sidecar :: "env \<Rightarrow> world \<Rightarrow> string \<Rightarrow> (error + bool) \<times> world" where
  "sidecar env w p =
     (case writeFile env w p of (None, w1) \<Rightarrow> (Inr True, w1) | (Some e, w1) \<Rightarrow> (Inl e, w1))"

text \<open>
  The byte transfer of the media branch (lines 114-140): \<^verbatim>\<open>client.downloadMedia\<close> writes
  \<^verbatim>\<open>outputFile\<close> when it resolves.
\<close>

definition transfer :: "env \<Rightarrow> world \<Rightarrow> message \<Rightarrow> string \<Rightarrow> (error + bool) \<times> world" where
  "transfer env w m mediaPath =
     (let w1 = emit (DownloadMedia (msg_id m) mediaPath) w
      in case client_downloadMedia env w1 m mediaPath of
           None \<Rightarrow> (Inr True, w1\<lparr>disk := insert mediaPath (disk w1)\<rparr>)
         | Some e \<Rightarrow> (Inl e, w1))"

text \<open>The byte transfer of the sticker branch (lines 141-158).\<close>

definition sticker_transfer :: "env \<Rightarrow> world \<Rightarrow> message \<Rightarrow> string \<Rightarrow> (error + bool) \<times> world" where
  "sticker_transfer env w m mediaPath =
     (let stickerPath = sibling env mediaPath (string_of_int (msg_id m) @ ''_sticker.webp'');
          w1 = emit (DownloadSticker (msg_id m) stickerPath) w
      in case client_downloadMedia env w1 m stickerPath of
           None \<Rightarrow> (Inr True, w1\<lparr>disk := insert stickerPath (disk w1)\<rparr>)
         | Some e \<Rightarrow> (Inl e, w1))"

text \<open>
  The web page block (lines 49-72). It ends the function (\<open>Some\<close> of a result or of a
  thrown error), or goes on with a media path.
\<close>

definition webpage_step ::
  "env \<Rightarrow> world \<Rightarrow> message \<Rightarrow> media \<Rightarrow> string \<Rightarrow> (error + bool) option \<times> string \<times> world" where
  "webpage_step env w m md mediaPath =
     (case webpage md of
        None \<Rightarrow> (None, mediaPath, w)
      | Some wp \<Rightarrow>
          (case (if truthy (url wp)
                 then writeFile env w (sibling env mediaPath (string_of_int (msg_id m) @ ''_webpage.txt''))
                 else (None, w)) of
             (Some e, w1) \<Rightarrow> (Some (Inl e), mediaPath, w1)
           | (None, w1) \<Rightarrow>
               if webpage_photo wp
               then (None, sibling env mediaPath (string_of_int (msg_id m) @ ''_webpage_image.jpeg''), w1)
               else (Some (Inr True), mediaPath, w1)))"

text \<open>The \<^verbatim>\<open>try\<close> block of \<^verbatim>\<open>downloadMessageMedia\<close> (lines 41-162).\<close>

definition downloadMessageMedia_try ::
  "env \<Rightarrow> world \<Rightarrow> message \<Rightarrow> string \<Rightarrow> (error + bool) \<times> world" where
  "downloadMessageMedia_try env w m mediaPath =
     (if mediaPath = [] then (Inr False, w)
      else case msg_media m of
        Some md \<Rightarrow>
          (case webpage_step env w m md mediaPath of
             (Some r, _, w1) \<Rightarrow> (r, w1)
           | (None, mediaPath1, w1) \<Rightarrow>
               if poll md \<noteq> None
               then sidecar env w1 (sibling env mediaPath1 (string_of_int (msg_id m) @ ''_poll.json''))
               else if geo md \<noteq> None
               then sidecar env w1 (sibling env mediaPath1 (string_of_int (msg_id m) @ ''_location.json''))
               else if contact md \<noteq> None
               then sidecar env w1 (sibling env mediaPath1 (string_of_int (msg_id m) @ ''_contact.json''))
               else if venue md \<noteq> None
               then sidecar env w1 (sibling env mediaPath1 (string_of_int (msg_id m) @ ''_venue.json''))
               else transfer env w1 m mediaPath1)
      | None \<Rightarrow>
          if msg_sticker m then sticker_transfer env w m mediaPath else (Inr False, w))"

text \<open>\<^verbatim>\<open>downloadMessageMedia\<close> (lines 40-168): its \<^verbatim>\<open>catch\<close> turns every error into \<^verbatim>\<open>false\<close>.\<close>

definition downloadMessageMedia :: "env \<Rightarrow> world \<Rightarrow> message \<Rightarrow> string \<Rightarrow> bool \<times> world" where
  "downloadMessageMedia env w m mediaPath =
     (case downloadMessageMedia_try env w m mediaPath of
        (Inr b, w1) \<Rightarrow> (b, w1)
      | (Inl e, w1) \<Rightarrow> (False, w1))"

text \<open>
  Modelled from the spec: \<^verbatim>\<open>checkFileExist\<close> of \<^verbatim>\<open>utils/helper\<close> is not among the sources;
  the specification has download test whether the canonical local path of the message
  already exists on disk.
\<close>

definition checkFileExist :: "env \<Rightarrow> world \<Rightarrow> message \<Rightarrow> bool" where
  "checkFileExist env w m = (getMediaPath env m (outputFolder w) \<in> disk w)"

text \<open>
  \<^verbatim>\<open>downloadMessage\<close> (lines 159-181). Nothing inside its \<^verbatim>\<open>try\<close> throws here, the helpers
  being taken to return, so its \<^verbatim>\<open>catch\<close> has no branch.
\<close>

definition downloadMessage :: "env \<Rightarrow> world \<Rightarrow> message \<Rightarrow> string option \<times> world" where
  "downloadMessage env w m =
     (case msg_media m of
        None \<Rightarrow> (None, w)
      | Some md \<Rightarrow>
          (let mediaPath = getMediaPath env m (outputFolder w)
           in if checkFileExist env w m then (Some mediaPath, w)
              else case downloadMessageMedia env w m mediaPath of
                     (True, w1) \<Rightarrow> (Some mediaPath, w1\<lparr>totalDownloaded := totalDownloaded w1 + 1\<rparr>)
                   | (False, w1) \<Rightarrow> (None, w1)))"

text \<open>The glyphs of the text summaries, in UTF-8, and the line feed.\<close>

definition glyph_poll :: string where "glyph_poll = [CHR 0xF0, CHR 0x9F, CHR 0x93, CHR 0x8A]"
definition glyph_geo :: string where "glyph_geo = [CHR 0xF0, CHR 0x9F, CHR 0x93, CHR 0x8D]"
definition glyph_contact :: string where "glyph_contact = [CHR 0xF0, CHR 0x9F, CHR 0x91, CHR 0xA4]"
definition glyph_venue :: string where "glyph_venue = [CHR 0xF0, CHR 0x9F, CHR 0x8F, CHR 0xA2]"
definition glyph_webpage :: string where "glyph_webpage = [CHR 0xF0, CHR 0x9F, CHR 0x94, CHR 0x97]"
definition nl :: string where "nl = [CHR 0x0A]"

text \<open>The numbered answers of a poll (line 261): \<^verbatim>\<open>answers.map(...).join('\n')\<close>.\<close>

definition poll_options :: "string list \<Rightarrow> string" where
  "poll_options as =
     join nl (map (\<lambda>(i, ans). string_of_nat (i + 1) @ ''. '' @ ans) (enumerate 0 as))"

text \<open>The text summaries of lines 261, 266, 271, 276 and 281.\<close>

definition poll_text :: "poll_payload \<Rightarrow> string \<Rightarrow> string" where
  "poll_text pollData originalCaption =
     glyph_poll @ '' Poll: '' @ question pollData @ nl @ nl @ ''Options:'' @ nl @
     poll_options (answers pollData) @ nl @ nl @ originalCaption"

definition geo_text :: "geo_payload \<Rightarrow> string \<Rightarrow> string" where
  "geo_text g originalCaption =
     glyph_geo @ '' Location: '' @ lat g @ '', '' @ long g @ nl @ nl @ originalCaption"

definition contact_text :: "contact_payload \<Rightarrow> string \<Rightarrow> string" where
  "contact_text c originalCaption =
     glyph_contact @ '' Contact: '' @ firstName c @ '' '' @ or_else (lastName c) [] @ nl @
     ''Phone: '' @ phoneNumber c @ nl @ nl @ originalCaption"

definition venue_text :: "venue_payload \<Rightarrow> string \<Rightarrow> string" where
  "venue_text v originalCaption =
     glyph_venue @ '' Venue: '' @ venue_title v @ nl @ ''Address: '' @ address v @ nl @ nl @
     originalCaption"

definition webpage_text :: "webpage_payload \<Rightarrow> string \<Rightarrow> string" where
  "webpage_text wp originalCaption =
     glyph_webpage @ '' '' @ or_else (webpage_title wp) ''Webpage'' @ nl @ template (url wp) @ nl @
     or_else (description wp) [] @ nl @ nl @ originalCaption"

text \<open>
  The chain of lines 258-283: the first payload present replaces the text and deletes
  \<^verbatim>\<open>uploadOptions.file\<close>.
\<close>

definition special_payload :: "media \<Rightarrow> string \<Rightarrow> upload_options \<Rightarrow> upload_options" where
  "special_payload md originalCaption opts =
     (case poll md of
        Some pollData \<Rightarrow> opts\<lparr>opt_message := poll_text pollData originalCaption, opt_file := None\<rparr>
      | None \<Rightarrow>
     (case geo md of
        Some g \<Rightarrow> opts\<lparr>opt_message := geo_text g originalCaption, opt_file := None\<rparr>
      | None \<Rightarrow>
     (case contact md of
        Some c \<Rightarrow> opts\<lparr>opt_message := contact_text c originalCaption, opt_file := None\<rparr>
      | None \<Rightarrow>
     (case venue md of
        Some v \<Rightarrow> opts\<lparr>opt_message := venue_text v originalCaption, opt_file := None\<rparr>
      | None \<Rightarrow>
     (case webpage md of
        Some wp \<Rightarrow> opts\<lparr>opt_message := webpage_text wp originalCaption, opt_file := None\<rparr>
      | None \<Rightarrow> opts)))))"

text \<open>Attaching the local file (lines 212-225).\<close>

definition attach_local :: "media \<Rightarrow> string \<Rightarrow> upload_options \<Rightarrow> upload_options" where
  "attach_local md p opts =
     (let o1 = opts\<lparr>opt_file := Some (LocalFile p)\<rparr>
      in if photo md then o1\<lparr>opt_supportsStreaming := True\<rparr>
         else case document md of
                Some doc \<Rightarrow>
                  o1\<lparr>opt_attributes := Some (case attributes doc of None \<Rightarrow> [] | Some a \<Rightarrow> a),
                     opt_mimeType := mimeType doc, opt_supportsStreaming := True\<rparr>
              | None \<Rightarrow>
                  if video md then o1\<lparr>opt_supportsStreaming := True, opt_videoNote := videoNote md\<rparr>
                  else o1)"

text \<open>Attaching the original media once forwarding has failed (lines 242-253).\<close>

definition attach_reference :: "media \<Rightarrow> upload_options \<Rightarrow> upload_options" where
  "attach_reference md opts =
     (if photo md then opts\<lparr>opt_file := Some PhotoRef\<rparr>
      else if document md \<noteq> None then opts\<lparr>opt_file := Some DocumentRef\<rparr>
      else if video md then opts\<lparr>opt_file := Some VideoRef\<rparr>
      else if audio md then opts\<lparr>opt_file := Some AudioRef\<rparr>
      else if voice md then opts\<lparr>opt_file := Some VoiceRef, opt_voiceNote := True\<rparr>
      else opts)"

text \<open>\<^verbatim>\<open>mediaPath && fs.existsSync(mediaPath)\<close>: the path, when the test holds.\<close>

definition local_file :: "world \<Rightarrow> string option \<Rightarrow> string option" where
  "local_file w mediaPath =
     (case mediaPath of
        None \<Rightarrow> None
      | Some p \<Rightarrow> if p \<noteq> [] \<and> p \<in> disk w then Some p else None)"

text \<open>\<^verbatim>\<open>client.sendMessage(targetChannelId, uploadOptions)\<close> and \<^verbatim>\<open>return result\<close> (lines 298-299).\<close>

definition sendMessage :: "env \<Rightarrow> world \<Rightarrow> int \<Rightarrow> upload_options \<Rightarrow> (error + bool) \<times> world" where
  "sendMessage env w t opts =
     (let w1 = emit (SendMessage t opts) w in (client_sendMessage env w1 t opts, w1))"

text \<open>The \<^verbatim>\<open>try\<close> block of \<^verbatim>\<open>uploadMessageToChannel\<close> (lines 179-299).\<close>

definition uploadMessageToChannel_try ::
  "env \<Rightarrow> world \<Rightarrow> int option \<Rightarrow> message \<Rightarrow> string option \<Rightarrow> (error + bool) \<times> world" where
  "uploadMessageToChannel_try env w target m mediaPath =
     (case (case target of None \<Rightarrow> None | Some t \<Rightarrow> if t = 0 then None else Some t) of
        None \<Rightarrow> (Inl (Error ''Client, targetChannelId, and message are required''), w)
      | Some t \<Rightarrow>
          (let originalCaption = or_else (msg_message m) [];
               originalEntities = (case msg_entities m of None \<Rightarrow> [] | Some es \<Rightarrow> es);
               uploadOptions =
                 \<lparr>opt_message = originalCaption, opt_entities = originalEntities,
                  opt_silent = True, opt_workers = 16, opt_chunkSize = 4 * 1024 * 1024,
                  opt_file = None, opt_supportsStreaming = False, opt_attributes = None,
                  opt_mimeType = None, opt_videoNote = False, opt_voiceNote = False,
                  opt_sticker = False\<rparr>
           in case msg_media m of
                Some md \<Rightarrow>
                  (case local_file w mediaPath of
                     Some p \<Rightarrow>
                       sendMessage env w t
                         (special_payload md originalCaption (attach_local md p uploadOptions))
                   | None \<Rightarrow>
                       (let w1 = emit (ForwardMessages t (msg_id m)) w
                        in case client_forwardMessages env w1 t m of
                             Inr result \<Rightarrow> (Inr result, w1)
                           | Inl forwardError \<Rightarrow>
                               sendMessage env w1 t
                                 (special_payload md originalCaption
                                    (attach_reference md uploadOptions))))
              | None \<Rightarrow>
                  if msg_sticker m
                  then sendMessage env w t (uploadOptions\<lparr>opt_file := Some StickerRef, opt_sticker := True\<rparr>)
                  else if \<not> trim_nonempty originalCaption then (Inr False, w)
                  else sendMessage env w t uploadOptions))"

text \<open>
  \<^verbatim>\<open>uploadMessageToChannel\<close> (lines 178-304): its \<^verbatim>\<open>catch\<close> throws the error again under a
  longer message.
\<close>

definition uploadMessageToChannel ::
  "env \<Rightarrow> world \<Rightarrow> int option \<Rightarrow> message \<Rightarrow> string option \<Rightarrow> (error + bool) \<times> world" where
  "uploadMessageToChannel env w target m mediaPath =
     (case uploadMessageToChannel_try env w target m mediaPath of
        (Inl e, w1) \<Rightarrow> (Inl (Error (''Failed to upload message: '' @ message e)), w1)
      | (Inr result, w1) \<Rightarrow> (Inr result, w1))"

text \<open>\<^verbatim>\<open>uploadMessage\<close> (lines 186-216): its \<^verbatim>\<open>catch\<close> turns every error into \<^verbatim>\<open>false\<close>.\<close>

definition uploadMessage :: "env \<Rightarrow> world \<Rightarrow> message \<Rightarrow> string option \<Rightarrow> bool \<times> world" where
  "uploadMessage env w m mediaPath =
     (if \<not> uploadMode w \<or> targetChannelId w = None \<or> targetChannelId w = Some 0 then (False, w)
      else case uploadMessageToChannel env w (targetChannelId w) m mediaPath of
             (Inl e, w1) \<Rightarrow> (False, w1)
           | (Inr False, w1) \<Rightarrow> (False, w1)
           | (Inr True, w1) \<Rightarrow>
               (let w2 = w1\<lparr>totalUploaded := totalUploaded w1 + 1\<rparr>
                in case local_file w2 mediaPath of
                     None \<Rightarrow> (True, w2)
                   | Some p \<Rightarrow>
                       (let w3 = emit (Unlink p) w2
                        in case fs_unlinkSync env w3 p of
                             None \<Rightarrow> (True, w3\<lparr>disk := disk w3 - {p}\<rparr>)
                           | Some cleanupError \<Rightarrow> (True, w3))))"

section \<open>The pipeline of one message\<close>

text \<open>\<^verbatim>\<open>message.message && message.message.trim()\<close>.\<close>

definition has_text :: "message \<Rightarrow> bool" where
  "has_text m = (case msg_message m of None \<Rightarrow> False | Some s \<Rightarrow> s \<noteq> [] \<and> trim_nonempty s)"

text \<open>
  The \<^verbatim>\<open>try\<close> block of \<^verbatim>\<open>processMessage\<close> (lines 223-263), with the error it throws, if
  any, and the object as the block leaves it.
\<close>

definition processMessage_try ::
  "env \<Rightarrow> world \<Rightarrow> message \<Rightarrow> nat \<Rightarrow> nat \<Rightarrow> error option \<times> world" where
  "processMessage_try env w m index count =
     (let (mediaPath1, hasContent1, w1) =
            (if msg_media m \<noteq> None
             then (case downloadMessage env w m of
                     (p, w') \<Rightarrow> (p, True, emit (Wait DOWNLOAD_DELAY) w'))
             else (None, has_text m, w));
          (mediaPath2, hasContent2, w2) =
            (if msg_sticker m
             then (case downloadMessage env w1 m of
                     (p, w') \<Rightarrow> (p, True, emit (Wait DOWNLOAD_DELAY) w'))
             else (mediaPath1, hasContent1, w1));
          w3 = (if uploadMode w2 \<and> hasContent2
                then (case uploadMessage env w2 m mediaPath2 of
                        (uploadSuccess, w') \<Rightarrow> emit (Wait UPLOAD_DELAY) w')
                else w2)
      in (None, w3\<lparr>totalProcessedMessages := totalProcessedMessages w3 + 1\<rparr>))"

text \<open>
  \<^verbatim>\<open>processMessage\<close> (lines 222-268): its \<^verbatim>\<open>catch\<close> logs the error and returns, so the
  caller sees no error.
\<close>

definition processMessage :: "env \<Rightarrow> world \<Rightarrow> message \<Rightarrow> nat \<Rightarrow> nat \<Rightarrow> world" where
  "processMessage env w m index count =
     (case processMessage_try env w m index count of
        (None, w') \<Rightarrow> w'
      | (Some e, w') \<Rightarrow> w')"

section \<open>Batch scheduler\<close>

text \<open>
  Lines 352-371 of \<^verbatim>\<open>downloadChannel\<close>. Calling the \<^verbatim>\<open>async\<close> method \<^verbatim>\<open>processMessage\<close>
  starts the invocation at once: its body runs up to its first \<^verbatim>\<open>await\<close> inside the
  call, and the promise it returns stands for the rest. \<open>Invoke msg index count\<close> is
  such a call, \<open>AwaitBatch i\<close> is \<^verbatim>\<open>await processPromises[i]\<close>, which returns when every
  invocation of batch \<open>i\<close> has finished, and \<open>Sleep ms\<close> is \<^verbatim>\<open>await this.wait(ms)\<close>.
  A promise of \<^verbatim>\<open>processPromises\<close> is kept as the batch it waits for.
\<close>

datatype 'm sched_event = Invoke 'm nat nat | AwaitBatch nat | Sleep int

text \<open>
  Whether an invocation of \<^verbatim>\<open>processMessage\<close> reaches an \<^verbatim>\<open>await\<close> (lines 238, 245 and 251),
  given \<^verbatim>\<open>this.uploadMode\<close>. Such an invocation is suspended there when the call returns,
  and goes on only once the caller awaits in its turn; the others have run to their end
  inside the call.
\<close>

definition suspends :: "bool \<Rightarrow> message \<Rightarrow> bool" where
  "suspends upload m =
     (if msg_media m \<noteq> None then True
      else if msg_sticker m then True
      else upload \<and> has_text m)"

text \<open>The first loop (lines 353-361).\<close>

function start_batches ::
  "'m list \<Rightarrow> nat \<Rightarrow> 'm list list \<Rightarrow> 'm sched_event list \<Rightarrow> 'm list list \<times> 'm sched_event list" where
  "start_batches messagesToProcess i processPromises tr =
     (if i < length messagesToProcess
      then (let batch = take MAX_PARALLEL_PROCESS (drop i messagesToProcess);
                batchPromises =
                  map (\<lambda>(index, msg). Invoke msg (i + index) (length messagesToProcess))
                    (enumerate 0 batch)
            in start_batches messagesToProcess (i + MAX_PARALLEL_PROCESS)
                 (processPromises @ [batch]) (tr @ batchPromises))
      else (processPromises, tr))"
  by pat_completeness auto
termination
  by (relation "measure (\<lambda>(ms, i, ps, tr). length ms - i)") (auto simp: MAX_PARALLEL_PROCESS_def)

declare start_batches.simps [simp del]

text \<open>The second loop (lines 364-371).\<close>

function await_batches :: "'m list list \<Rightarrow> nat \<Rightarrow> 'm sched_event list \<Rightarrow> 'm sched_event list" where
  "await_batches processPromises i tr =
     (if i < length processPromises
      then await_batches processPromises (i + 1)
             (tr @ [AwaitBatch i] @
              (if int i < int (length processPromises) - 1 then [Sleep RATE_LIMIT_DELAY] else []))
      else tr)"
  by pat_completeness auto
termination
  by (relation "measure (\<lambda>(ps, i, tr). length ps - i)") auto

declare await_batches.simps [simp del]

text \<open>The two passes together: the batches and the order of the events.\<close>

definition process_batches :: "'m list \<Rightarrow> 'm list list \<times> 'm sched_event list" where
  "process_batches messagesToProcess =
     (case start_batches messagesToProcess 0 [] [] of
        (processPromises, tr) \<Rightarrow> (processPromises, await_batches processPromises 0 tr))"

section \<open>Page driver\<close>

text \<open>
  \<^verbatim>\<open>err.message.match(/\d+/)?.[0]\<close>: the first run of digits of the message, taken as long
  as it goes.
\<close>

definition first_digits :: "string \<Rightarrow> string option" where
  "first_digits s =
     (case dropWhile (\<lambda>c. \<not> is_digit c) s of [] \<Rightarrow> None | d # ds \<Rightarrow> Some (takeWhile is_digit (d # ds)))"

text \<open>
  \<^verbatim>\<open>parseInt\<close> on a string that starts with its digits, as every string it is given on
  line 397 does: the value of the leading run of digits, and \<^verbatim>\<open>NaN\<close> (\<open>None\<close>) when there
  is none. The value is the exact integer; JavaScript has the nearest double, which is
  the same number up to 2 ^ 53.
\<close>

definition decimal :: "string \<Rightarrow> int" where
  "decimal ds = foldl (\<lambda>acc c. 10 * acc + digit_value c) 0 ds"

definition parseInt :: "string \<Rightarrow> int option" where
  "parseInt s =
     (case takeWhile is_digit s of [] \<Rightarrow> None | d # ds \<Rightarrow> Some (decimal (d # ds)))"

text \<open>
  \<^verbatim>\<open>waitTime\<close> of line 397, in milliseconds. \<^verbatim>\<open>NaN\<close> would make the timer fire at once; it
  does not arise.
\<close>

definition flood_wait_ms :: "string \<Rightarrow> int" where
  "flood_wait_ms msg =
     (case parseInt (or_else (first_digits msg) ''300'') of None \<Rightarrow> 0 | Some n \<Rightarrow> n * 1000)"

text \<open>
  How the \<^verbatim>\<open>try\<close> block of \<^verbatim>\<open>downloadChannel\<close> ends before it calls itself (lines 323-382):
  with an empty page, with a page whose last message has the given identifier, after
  the batches, the transcript, the checkpoint and the progress report, or with an
  error. The block runs its messages concurrently, so it is taken from outside, as a
  function of the object on entry and of the offset that gives the ending and the
  object on exit.
\<close>

datatype page_end = NoMessages | PageDone int | BodyThrew error

datatype driver_result = Returned | Threw error | Pending

text \<open>
  \<^verbatim>\<open>downloadChannel\<close> (lines 321-405). It calls itself without bound, so the number of
  calls is limited by the first argument: \<open>Pending\<close> says that the limit was reached.
\<close>

fun downloadChannel ::
  "nat \<Rightarrow> (world \<Rightarrow> int \<Rightarrow> page_end \<times> world) \<Rightarrow> world \<Rightarrow> int \<Rightarrow> driver_result \<times> world" where
  "downloadChannel 0 body w offsetMsgId = (Pending, w)"
| "downloadChannel (Suc n) body w offsetMsgId =
     (case (case body (emit (FetchPage offsetMsgId) w) offsetMsgId of
              (NoMessages, w1) \<Rightarrow> (Returned, w1)
            | (PageDone lastId, w1) \<Rightarrow>
                downloadChannel n body (emit (Wait RATE_LIMIT_DELAY) w1) lastId
            | (BodyThrew err, w1) \<Rightarrow> (Threw err, w1)) of
        (Threw err, w2) \<Rightarrow>
          if str_includes (message err) ''FLOOD_WAIT''
          then downloadChannel n body (emit (Wait (flood_wait_ms (message err))) w2) offsetMsgId
          else (Threw err, w2)
      | (Returned, w2) \<Rightarrow> (Returned, w2)
      | (Pending, w2) \<Rightarrow> (Pending, w2))"

section \<open>Configuration\<close>

text \<open>
  Channel identifiers are taken by their numeric value, which is what line 479 compares.
  \<open>None\<close> is an option that was not given or is the empty text, and a stored field that
  is \<^verbatim>\<open>undefined\<close>. The number 0 is falsy too: line 415 then asks for the channel.
\<close>

record options =
  cfg_channelId :: "int option"
  cfg_downloadableFiles :: "(string \<rightharpoonup> bool) option"

record selection =
  sel_channelId :: "int option"
  sel_messageOffsetId :: "int option"

text \<open>The answers given at the prompts of \<^verbatim>\<open>selectInput\<close> and \<^verbatim>\<open>booleanInput\<close>.\<close>

record answers =
  source_channel :: int
  upload_answer :: bool
  target_channel :: int

definition default_policy :: "string \<rightharpoonup> bool" where
  "default_policy =
     map_of (map (\<lambda>key. (key, True))
       [''webpage'', ''poll'', ''geo'', ''contact'', ''venue'', ''sticker'', ''image'', ''video'',
        ''audio'', ''voice'', ''document'', ''pdf'', ''zip'', ''all''])"

text \<open>
  \<^verbatim>\<open>configureDownload\<close> (lines 410-485). \<open>lastSelection\<close> is what \<^verbatim>\<open>getLastSelection\<close>
  returns; the third component of the result is what \<^verbatim>\<open>updateLastSelection\<close> is given.
\<close>

definition configureDownload ::
  "world \<Rightarrow> options \<Rightarrow> answers \<Rightarrow> selection \<Rightarrow> (int \<times> int) \<times> world \<times> selection" where
  "configureDownload w cfg ui lastSelection =
     (let channelId =
            (case cfg_channelId cfg of
               None \<Rightarrow> source_channel ui
             | Some c \<Rightarrow> if c = 0 then source_channel ui else c);
          w1 = w\<lparr>uploadMode := upload_answer ui\<rparr>;
          w2 = (if uploadMode w1 then w1\<lparr>targetChannelId := Some (target_channel ui)\<rparr> else w1);
          w3 = w2\<lparr>downloadableFiles :=
                    Some (case cfg_downloadableFiles cfg of None \<Rightarrow> default_policy | Some f \<Rightarrow> f)\<rparr>;
          messageOffsetId0 = (case sel_messageOffsetId lastSelection of None \<Rightarrow> 0 | Some n \<Rightarrow> n);
          messageOffsetId =
            (if (case sel_channelId lastSelection of None \<Rightarrow> True | Some a \<Rightarrow> a \<noteq> channelId)
             then 0 else messageOffsetId0)
      in ((channelId, messageOffsetId), w3,
          \<lparr>sel_channelId = Some channelId, sel_messageOffsetId = Some messageOffsetId\<rparr>))"

section \<open>What the pipeline leaves alone\<close>

text \<open>The byte transfers of the sticker branch among the calls made.\<close>

definition sticker_transfers :: "effect list \<Rightarrow> effect list" where
  "sticker_transfers es = filter (\<lambda>e. case e of DownloadSticker i p \<Rightarrow> True | _ \<Rightarrow> False) es"

text \<open>
  Two states of the object with the same count of processed messages and the same
  sticker transfers.
\<close>

definition steady :: "world \<Rightarrow> world \<Rightarrow> bool" where
  "steady w w' =
     (totalProcessedMessages w' = totalProcessedMessages w \<and>
      sticker_transfers (effects w') = sticker_transfers (effects w))"

text \<open>The glyph of the first payload present, in the order of lines 258-283.\<close>

definition payload_glyph :: "media \<Rightarrow> string option" where
  "payload_glyph md =
     (if poll md \<noteq> None then Some glyph_poll
      else if geo md \<noteq> None then Some glyph_geo
      else if contact md \<noteq> None then Some glyph_contact
      else if venue md \<noteq> None then Some glyph_venue
      else if webpage md \<noteq> None then Some glyph_webpage
      else None)"

section \<open>Concrete inputs\<close>

text \<open>Lower case on the ASCII letters, which is \<^verbatim>\<open>toLowerCase\<close> on ASCII text.\<close>

definition ascii_lower :: "string \<Rightarrow> string" where
  "ascii_lower s =
     map (\<lambda>c. case map_of (zip ''ABCDEFGHIJKLMNOPQRSTUVWXYZ'' ''abcdefghijklmnopqrstuvwxyz'') c of
                None \<Rightarrow> c | Some l \<Rightarrow> l) s"

text \<open>
  An environment in which every call returns, and one in which every call to the client
  and to the file system throws. Media are images stored under the output folder.
\<close>

definition quiet_env :: env where
  "quiet_env =
     \<lparr>getMediaType = (\<lambda>m. ''image''),
      getMediaPath = (\<lambda>m folder. folder @ ''/'' @ string_of_int (msg_id m) @ ''_file.JPG''),
      path_extname = (\<lambda>p. drop (length p - 4) p),
      path_dirname = (\<lambda>p. ''export/1''),
      path_join = (\<lambda>a b. a @ ''/'' @ b),
      toLowerCase = ascii_lower,
      fs_writeFileSync = (\<lambda>w p. None),
      fs_unlinkSync = (\<lambda>w p. None),
      client_downloadMedia = (\<lambda>w m p. None),
      client_forwardMessages = (\<lambda>w t m. Inr True),
      client_sendMessage = (\<lambda>w t opts. Inr True)\<rparr>"

definition failing_env :: env where
  "failing_env =
     quiet_env
       \<lparr>fs_writeFileSync := (\<lambda>w p. Some (Error ''EACCES'')),
        fs_unlinkSync := (\<lambda>w p. Some (Error ''EACCES'')),
        client_downloadMedia := (\<lambda>w m p. Some (Error ''TIMEOUT'')),
        client_forwardMessages := (\<lambda>w t m. Inl (Error ''CHAT_FORWARDS_RESTRICTED'')),
        client_sendMessage := (\<lambda>w t opts. Inl (Error ''TIMEOUT''))\<rparr>"

text \<open>A text message with a given identifier.\<close>

definition text_message :: "int \<Rightarrow> message" where
  "text_message i =
     \<lparr>msg_id = i, msg_message = Some ''hello'', msg_entities = None, msg_media = None,
      msg_sticker = False, msg_document = False, msg_photo = False, msg_video = False,
      msg_audio = False, msg_voice = False, msg_poll = False, msg_geo = False,
      msg_contact = False, msg_venue = False, msg_webpage = False\<rparr>"

text \<open>An environment in which forwarding is refused and every other call returns.\<close>

definition restricted_env :: env where
  "restricted_env =
     quiet_env\<lparr>client_forwardMessages := (\<lambda>w t m. Inl (Error ''CHAT_FORWARDS_RESTRICTED''))\<rparr>"

definition no_media :: media where
  "no_media =
     \<lparr>webpage = None, poll = None, geo = None, contact = None, venue = None, photo = False,
      document = None, video = False, audio = False, voice = False, videoNote = False\<rparr>"

definition photo_message :: "int \<Rightarrow> message" where
  "photo_message i =
     (text_message i)\<lparr>msg_message := Some ''caption'', msg_media := Some (no_media\<lparr>photo := True\<rparr>),
       msg_photo := True\<rparr>"

text \<open>A page of seven photo messages.\<close>

definition seven_messages :: "message list" where
  "seven_messages = map photo_message [1, 2, 3, 4, 5, 6, 7]"

definition poll_message :: "int \<Rightarrow> message" where
  "poll_message i =
     (text_message i)
       \<lparr>msg_message := None,
        msg_media := Some (no_media\<lparr>poll := Some \<lparr>question = ''Q'', answers = [''A'', ''B'']\<rparr>\<rparr>),
        msg_poll := True\<rparr>"

definition geo_message :: "int \<Rightarrow> message" where
  "geo_message i =
     (text_message i)
       \<lparr>msg_message := Some ''here'',
        msg_media := Some (no_media\<lparr>geo := Some \<lparr>lat = ''48.85'', long = ''2.35''\<rparr>\<rparr>),
        msg_geo := True\<rparr>"

definition sticker_message :: "int \<Rightarrow> message" where
  "sticker_message i = (text_message i)\<lparr>msg_message := None, msg_sticker := True\<rparr>"

definition empty_message :: "int \<Rightarrow> message" where
  "empty_message i = (text_message i)\<lparr>msg_message := None\<rparr>"

text \<open>The object after the output folder of channel 1 is set, in download-only mode.\<close>

definition local_world :: "string set \<Rightarrow> world" where
  "local_world d = (constructor d)\<lparr>outputFolder := ''export/1''\<rparr>"

text \<open>The same in upload mode, to channel 7.\<close>

definition upload_world :: "string set \<Rightarrow> world" where
  "upload_world d = (local_world d)\<lparr>uploadMode := True, targetChannelId := Some 7\<rparr>"

text \<open>
  A page body that throws a flood-wait error with the given message on the first fetch
  and finds no messages on the next one.
\<close>

definition flood_once :: "string \<Rightarrow> world \<Rightarrow> int \<Rightarrow> page_end \<times> world" where
  "flood_once msg w offsetMsgId =
     (if length (effects w) \<le> 1 then (BodyThrew (Error msg), w) else (NoMessages, w))"

text \<open>A policy that disables images, and one that enables the extension \<open>jpg\<close> only.\<close>

definition strict_policy :: "string \<rightharpoonup> bool" where
  "strict_policy = [''image'' \<mapsto> False, ''jpg'' \<mapsto> False, ''all'' \<mapsto> False]"

definition jpg_policy :: "string \<rightharpoonup> bool" where
  "jpg_policy = [''image'' \<mapsto> False, ''jpg'' \<mapsto> True, ''all'' \<mapsto> False]"

section \<open>Properties of the rate governor\<close>

lemma checkRateLimit_effects:
  "effects (checkRateLimit w now) =
     effects w @
       (if 15 < requestCount w \<and> now - lastRequestTime w < 60000 then [Wait 60000] else [])"
  by (simp add: checkRateLimit_def emit_def Let_def)

lemma checkRateLimit_requestCount:
  "requestCount (checkRateLimit w now) =
     (if 15 < requestCount w \<and> now - lastRequestTime w < 60000 then 1 else requestCount w + 1)"
  by (simp add: checkRateLimit_def emit_def Let_def)

lemma checkRateLimit_lastRequestTime: "lastRequestTime (checkRateLimit w now) = now"
  by (simp add: checkRateLimit_def emit_def Let_def)

lemma admit_all_snoc: "admit_all w (nows @ [now]) = checkRateLimit (admit_all w nows) now"
  by (simp add: admit_all_def)

lemma take_Suc_snoc: "k < length nows \<Longrightarrow> take (Suc k) nows = take k nows @ [nows ! k]"
  by (simp add: take_Suc_conv_app_nth)

lemma admit_all_lastRequestTime:
  "k \<le> length nows \<Longrightarrow>
   lastRequestTime (admit_all (constructor d) (take k nows)) = previous_call nows k"
proof (induction k)
  case 0
  show ?case by (simp add: admit_all_def constructor_def previous_call_def)
next
  case (Suc k)
  then show ?case
    by (simp add: take_Suc_snoc admit_all_snoc checkRateLimit_lastRequestTime previous_call_def)
qed

lemma cooled_step:
  "k < length nows \<Longrightarrow>
   cooled w nows k \<longleftrightarrow>
     (15 < requestCount (admit_all w (take k nows)) \<and>
      nows ! k - lastRequestTime (admit_all w (take k nows)) < 60000)"
  by (simp add: cooled_def take_Suc_snoc admit_all_snoc checkRateLimit_effects)

lemma counted_calls_Suc:
  "counted_calls w nows (Suc k) = (if cooled w nows k then 1 else counted_calls w nows k + 1)"
proof -
  have "j < k" if "filter (cooled w nows) (rev [0..<k]) = j # js" for j js
  proof -
    have "j \<in> set (filter (cooled w nows) (rev [0..<k]))" using that by simp
    then show ?thesis by simp
  qed
  then show ?thesis
    by (auto simp: counted_calls_def Suc_diff_le less_imp_le split: list.splits)
qed

lemma admit_all_requestCount:
  "k \<le> length nows \<Longrightarrow>
   requestCount (admit_all (constructor d) (take k nows)) =
     int (counted_calls (constructor d) nows k)"
proof (induction k)
  case 0
  show ?case by (simp add: admit_all_def constructor_def counted_calls_def)
next
  case (Suc k)
  then have k: "k < length nows" by simp
  show ?case using Suc
    by (simp add: take_Suc_snoc admit_all_snoc checkRateLimit_requestCount counted_calls_Suc
        cooled_step [OF k])
qed

lemma cooled_spaced_calls: "cooled (constructor {}) spaced_calls 16"
  by (simp add: cooled_def spaced_calls_def admit_all_def checkRateLimit_def emit_def
      constructor_def eval_nat_numeral upt_rec Let_def)

text \<open>
  C3, as the code has it. In a run of gated calls that starts from the fresh object, a
  call makes the 60 second wait (\<^verbatim>\<open>this.wait(60000)\<close>, once) exactly when more than 15
  calls have been counted since the last such wait, or since the start, and the call
  comes less than 60 seconds after the call before it; the counter then restarts at
  zero and counts this call. Otherwise the call adds no wait. Either way the call is
  admitted and counted: no call is rejected.
\<close>

theorem checkRateLimit_cooling_rule:
  "k < length nows \<Longrightarrow>
   (cooled (constructor d) nows k \<longleftrightarrow>
      15 < counted_calls (constructor d) nows k \<and> nows ! k - previous_call nows k < 60000) \<and>
   effects (admit_all (constructor d) (take (Suc k) nows)) =
      effects (admit_all (constructor d) (take k nows)) @
        (if cooled (constructor d) nows k then [Wait 60000] else []) \<and>
   requestCount (admit_all (constructor d) (take (Suc k) nows)) =
      (if cooled (constructor d) nows k then 1
       else requestCount (admit_all (constructor d) (take k nows)) + 1)"
  using cooled_step [of k nows "constructor d"] admit_all_requestCount [of k nows d]
    admit_all_lastRequestTime [of k nows d]
  by (simp add: take_Suc_snoc admit_all_snoc checkRateLimit_effects checkRateLimit_requestCount)

theorem checkRateLimit_cooling_rule_witness:
  "16 < length spaced_calls \<and>
   15 < counted_calls (constructor {}) spaced_calls 16 \<and>
   spaced_calls ! 16 - previous_call spaced_calls 16 < 60000 \<and>
   requestCount (admit_all (constructor {}) (take (Suc 16) spaced_calls)) = 1"
proof -
  have h: "16 < length spaced_calls" by (simp add: spaced_calls_def)
  show ?thesis
    using h checkRateLimit_cooling_rule [OF h, of "{}"] cooled_spaced_calls by simp
qed

text \<open>
  C3 as stated fails: of seventeen calls 59 seconds apart the last one makes the 60
  second wait, although only one call occurred within the 60 seconds before it.
\<close>

theorem sliding_window_counterexample:
  "cooled (constructor {}) spaced_calls 16 \<and> \<not> sliding_window_rule spaced_calls 16"
  using cooled_spaced_calls
  by (simp add: sliding_window_rule_def calls_in_window_def spaced_calls_def upt_rec)


section \<open>Properties of the content classifier\<close>

text \<open>
  C5. \<^verbatim>\<open>shouldProcess\<close> keeps every message that has text and no media, whatever the
  policy; for a message with media it holds exactly when the policy enables the media
  type, or the extension of the media path, or \<open>all\<close>; and it rejects every message
  without content.
\<close>

theorem shouldProcess_rule:
  "(truthy (msg_message m) \<and> msg_media m = None \<longrightarrow> shouldProcess env w m) \<and>
   (msg_media m \<noteq> None \<longrightarrow>
      (shouldProcess env w m \<longleftrightarrow>
         policy_flag (downloadableFiles w) (getMediaType env m) \<or>
         policy_flag (downloadableFiles w) (extension_of env (getMediaPath env m (outputFolder w))) \<or>
         policy_flag (downloadableFiles w) ''all'')) \<and>
   (\<not> hasContent m \<longrightarrow> \<not> shouldProcess env w m)"
  by (simp add: shouldProcess_def hasContent_def Let_def)

lemma quiet_env_extension:
  "extension_of quiet_env (getMediaPath quiet_env (photo_message 2) ''export/1'') = ''jpg''"
  by (simp add: extension_of_def quiet_env_def ascii_lower_def)

lemma policy_flag_examples:
  "policy_flag (Some strict_policy) ''image'' = False"
  "policy_flag (Some strict_policy) ''jpg'' = False"
  "policy_flag (Some strict_policy) ''all'' = False"
  "policy_flag (Some jpg_policy) ''jpg'' = True"
  by (simp_all add: policy_flag_def strict_policy_def jpg_policy_def)

lemma photo_message_media:
  "msg_media (photo_message 2) \<noteq> None"
  "getMediaType quiet_env (photo_message 2) = ''image''"
  by (simp_all add: photo_message_def text_message_def quiet_env_def)

lemma local_world_policy:
  "outputFolder ((local_world {})\<lparr>downloadableFiles := p\<rparr>) = ''export/1''"
  "downloadableFiles ((local_world {})\<lparr>downloadableFiles := p\<rparr>) = p"
  by (simp_all add: local_world_def)

theorem shouldProcess_rule_witness:
  "shouldProcess quiet_env (local_world {}) (text_message 1) \<and>
   \<not> shouldProcess quiet_env ((local_world {})\<lparr>downloadableFiles := Some strict_policy\<rparr>)
        (photo_message 2) \<and>
   shouldProcess quiet_env ((local_world {})\<lparr>downloadableFiles := Some jpg_policy\<rparr>)
        (photo_message 2) \<and>
   \<not> shouldProcess quiet_env (local_world {}) (empty_message 3)"
proof -
  have a: "shouldProcess quiet_env (local_world {}) (text_message 1)"
    using shouldProcess_rule [of "text_message 1" quiet_env "local_world {}"]
    by (simp add: text_message_def truthy_def)
  have b: "\<not> shouldProcess quiet_env ((local_world {})\<lparr>downloadableFiles := Some strict_policy\<rparr>)
      (photo_message 2)"
    using shouldProcess_rule [of "photo_message 2" quiet_env
        "(local_world {})\<lparr>downloadableFiles := Some strict_policy\<rparr>"]
    by (simp add: policy_flag_examples photo_message_media local_world_policy quiet_env_extension)
  have c: "shouldProcess quiet_env ((local_world {})\<lparr>downloadableFiles := Some jpg_policy\<rparr>)
      (photo_message 2)"
    using shouldProcess_rule [of "photo_message 2" quiet_env
        "(local_world {})\<lparr>downloadableFiles := Some jpg_policy\<rparr>"]
    by (simp add: policy_flag_examples photo_message_media local_world_policy quiet_env_extension)
  have d: "\<not> shouldProcess quiet_env (local_world {}) (empty_message 3)"
    using shouldProcess_rule [of "empty_message 3" quiet_env "local_world {}"]
    by (simp add: empty_message_def text_message_def hasContent_def truthy_def)
  from a b c d show ?thesis by simp
qed

section \<open>Properties of the page driver\<close>

lemma first_digits_SomeD:
  assumes "first_digits s = Some ds"
  shows "ds \<noteq> [] \<and> takeWhile is_digit ds = ds"
proof (cases "dropWhile (\<lambda>c. \<not> is_digit c) s")
  case Nil
  with assms show ?thesis by (simp add: first_digits_def)
next
  case (Cons d rest)
  have "is_digit d"
    using hd_dropWhile [of "\<lambda>c. \<not> is_digit c" s] Cons by simp
  moreover have "ds = takeWhile is_digit (d # rest)"
    using assms Cons by (simp add: first_digits_def)
  ultimately show ?thesis by simp
qed

lemma flood_wait_ms_hint:
  assumes "first_digits msg = Some ds"
  shows "flood_wait_ms msg = decimal ds * 1000"
proof -
  from first_digits_SomeD [OF assms] have ne: "ds \<noteq> []" and tw: "takeWhile is_digit ds = ds"
    by simp_all
  from ne obtain d ds' where ds: "ds = d # ds'" by (cases ds) auto
  have "parseInt ds = Some (decimal ds)"
    using tw by (simp add: parseInt_def ds)
  then show ?thesis using assms ne by (simp add: flood_wait_ms_def or_else_def)
qed

lemma first_digits_None: "(\<forall>c \<in> set s. \<not> is_digit c) \<Longrightarrow> first_digits s = None"
  by (simp add: first_digits_def dropWhile_eq_Nil_conv [THEN iffD2])

lemma parseInt_300: "parseInt ''300'' = Some 300"
  by (simp add: parseInt_def decimal_def is_digit_def digit_value_def)

lemma flood_wait_ms_default:
  "(\<forall>c \<in> set msg. \<not> is_digit c) \<Longrightarrow> flood_wait_ms msg = 300000"
  by (simp add: flood_wait_ms_def first_digits_None or_else_def parseInt_300)

text \<open>The wait of line 397 is always a number.\<close>

lemma waitTime_is_number: "parseInt (or_else (first_digits msg) ''300'') \<noteq> None"
proof (cases "first_digits msg")
  case None
  then show ?thesis by (simp add: or_else_def parseInt_300)
next
  case (Some ds)
  from first_digits_SomeD [OF Some] have "ds \<noteq> []" and "takeWhile is_digit ds = ds"
    by simp_all
  then show ?thesis
    using Some by (cases ds) (simp_all add: or_else_def parseInt_def)
qed

lemma downloadChannel_flood:
  "body (emit (FetchPage offsetMsgId) w) offsetMsgId = (BodyThrew err, w1) \<Longrightarrow>
   str_includes (message err) ''FLOOD_WAIT'' \<Longrightarrow>
   downloadChannel (Suc n) body w offsetMsgId =
     downloadChannel n body (emit (Wait (flood_wait_ms (message err))) w1) offsetMsgId"
  by simp

text \<open>No flood-wait error leaves \<^verbatim>\<open>downloadChannel\<close>.\<close>

lemma downloadChannel_no_flood_out:
  "downloadChannel n body w offsetMsgId = (Threw e, w') \<Longrightarrow>
   \<not> str_includes (message e) ''FLOOD_WAIT''"
proof (induction n arbitrary: w offsetMsgId e w')
  case 0
  then show ?case by simp
next
  case (Suc n)
  then show ?case
    by (auto split: prod.splits page_end.splits driver_result.splits if_splits)
qed

text \<open>
  C7. When the page body throws an error whose message contains \<^verbatim>\<open>FLOOD_WAIT\<close> and whose
  first run of digits is \<open>ds\<close>, \<^verbatim>\<open>downloadChannel\<close> waits \<open>ds\<close> seconds and then is what
  its own call with the same \<^verbatim>\<open>offsetMsgId\<close> is, started from the object as the error
  left it (only the wait is added to the calls made); and no error with \<^verbatim>\<open>FLOOD_WAIT\<close>
  in its message comes out of it.
\<close>

theorem flood_wait_same_page:
  assumes body: "body (emit (FetchPage offsetMsgId) w) offsetMsgId = (BodyThrew err, w1)"
    and flood: "str_includes (message err) ''FLOOD_WAIT''"
    and digits: "first_digits (message err) = Some ds"
  shows "downloadChannel (Suc n) body w offsetMsgId =
     downloadChannel n body (emit (Wait (decimal ds * 1000)) w1) offsetMsgId \<and>
   (emit (Wait (decimal ds * 1000)) w1)\<lparr>effects := effects w1\<rparr> = w1 \<and>
   (\<forall>e w'. downloadChannel (Suc n) body w offsetMsgId = (Threw e, w') \<longrightarrow>
      \<not> str_includes (message e) ''FLOOD_WAIT'')"
proof (intro conjI allI impI)
  show "downloadChannel (Suc n) body w offsetMsgId =
      downloadChannel n body (emit (Wait (decimal ds * 1000)) w1) offsetMsgId"
    using downloadChannel_flood [of body offsetMsgId w err w1 n, OF body flood] flood_wait_ms_hint [OF digits]
    by (simp only:)
  show "(emit (Wait (decimal ds * 1000)) w1)\<lparr>effects := effects w1\<rparr> = w1"
    by (simp add: emit_def)
  show "\<not> str_includes (message e) ''FLOOD_WAIT''"
    if "downloadChannel (Suc n) body w offsetMsgId = (Threw e, w')" for e w'
    using that by (rule downloadChannel_no_flood_out)
qed

lemma first_digits_120:
  "first_digits ''Failed to get messages: FLOOD_WAIT_120'' = Some ''120''"
  by (simp add: first_digits_def is_digit_def)

lemma decimal_120: "decimal ''120'' = 120"
  by (simp add: decimal_def digit_value_def)

theorem flood_wait_same_page_witness:
  "downloadChannel (Suc 1) (flood_once ''Failed to get messages: FLOOD_WAIT_120'') (local_world {}) 5 =
     (Returned, (local_world {})\<lparr>effects := [FetchPage 5, Wait 120000, FetchPage 5]\<rparr>)"
proof -
  let ?msg = "''Failed to get messages: FLOOD_WAIT_120''"
  let ?w1 = "emit (FetchPage 5) (local_world {})"
  have b: "flood_once ?msg ?w1 5 = (BodyThrew (Error ?msg), ?w1)"
    by (simp add: flood_once_def emit_def local_world_def constructor_def)
  have i: "str_includes (message (Error ?msg)) ''FLOOD_WAIT''" by simp
  have d: "first_digits (message (Error ?msg)) = Some ''120''"
    using first_digits_120 by simp
  have r: "downloadChannel 1 (flood_once ?msg) (emit (Wait 120000) ?w1) 5 =
      (Returned, (local_world {})\<lparr>effects := [FetchPage 5, Wait 120000, FetchPage 5]\<rparr>)"
    by (simp add: flood_once_def emit_def local_world_def constructor_def)
  show ?thesis
    using flood_wait_same_page [of "flood_once ?msg" 5 "local_world {}" "Error ?msg" ?w1 "''120''" 1,
        OF b i d] r
    by (simp add: decimal_120)
qed

text \<open>
  C10. When the page body throws an error whose message contains \<^verbatim>\<open>FLOOD_WAIT\<close> and no
  digit, \<^verbatim>\<open>downloadChannel\<close> waits 300 seconds and then is what its own call with the same
  \<^verbatim>\<open>offsetMsgId\<close> is.
\<close>

theorem flood_wait_default_wait:
  assumes body: "body (emit (FetchPage offsetMsgId) w) offsetMsgId = (BodyThrew err, w1)"
    and flood: "str_includes (message err) ''FLOOD_WAIT''"
    and digits: "\<forall>c \<in> set (message err). \<not> is_digit c"
  shows "downloadChannel (Suc n) body w offsetMsgId =
     downloadChannel n body (emit (Wait 300000) w1) offsetMsgId"
  using downloadChannel_flood [of body offsetMsgId w err w1 n, OF body flood] flood_wait_ms_default [OF digits]
  by (simp only:)

theorem flood_wait_default_wait_witness:
  "downloadChannel (Suc 1) (flood_once ''FLOOD_WAIT'') (local_world {}) 5 =
     (Returned, (local_world {})\<lparr>effects := [FetchPage 5, Wait 300000, FetchPage 5]\<rparr>)"
proof -
  let ?w1 = "emit (FetchPage 5) (local_world {})"
  have b: "flood_once ''FLOOD_WAIT'' ?w1 5 = (BodyThrew (Error ''FLOOD_WAIT''), ?w1)"
    by (simp add: flood_once_def emit_def local_world_def constructor_def)
  have i: "str_includes (message (Error ''FLOOD_WAIT'')) ''FLOOD_WAIT''" by simp
  have d: "\<forall>c \<in> set (message (Error ''FLOOD_WAIT'')). \<not> is_digit c"
    by (simp add: is_digit_def)
  have r: "downloadChannel 1 (flood_once ''FLOOD_WAIT'') (emit (Wait 300000) ?w1) 5 =
      (Returned, (local_world {})\<lparr>effects := [FetchPage 5, Wait 300000, FetchPage 5]\<rparr>)"
    by (simp add: flood_once_def emit_def local_world_def constructor_def)
  show ?thesis
    using flood_wait_default_wait [of "flood_once ''FLOOD_WAIT''" 5 "local_world {}"
        "Error ''FLOOD_WAIT''" ?w1 1, OF b i d] r
    by simp
qed

section \<open>Properties of the configuration\<close>

text \<open>
  C8. When the stored checkpoint is of channel \<open>a\<close> and the download is configured for
  a channel \<open>b\<close> other than \<open>a\<close>, the offset returned and stored is 0; the stored
  offset is returned only when the stored channel is the configured one.
\<close>

theorem configureDownload_channel_switch:
  "configureDownload w cfg ui lastSelection = ((b, messageOffsetId), w', stored) \<Longrightarrow>
   (sel_channelId lastSelection = Some a \<and> a \<noteq> b \<longrightarrow>
      messageOffsetId = 0 \<and> stored = \<lparr>sel_channelId = Some b, sel_messageOffsetId = Some 0\<rparr>) \<and>
   (messageOffsetId \<noteq> 0 \<longrightarrow>
      sel_channelId lastSelection = Some b \<and>
      sel_messageOffsetId lastSelection = Some messageOffsetId)"
  unfolding configureDownload_def Let_def
  by (auto split: option.splits if_splits)

theorem configureDownload_channel_switch_witness:
  "snd (fst (configureDownload (constructor {})
     \<lparr>cfg_channelId = Some 2, cfg_downloadableFiles = None\<rparr>
     \<lparr>source_channel = 9, upload_answer = False, target_channel = 7\<rparr>
     \<lparr>sel_channelId = Some 1, sel_messageOffsetId = Some 4200\<rparr>)) = 0 \<and>
   snd (snd (configureDownload (constructor {})
     \<lparr>cfg_channelId = Some 2, cfg_downloadableFiles = None\<rparr>
     \<lparr>source_channel = 9, upload_answer = False, target_channel = 7\<rparr>
     \<lparr>sel_channelId = Some 1, sel_messageOffsetId = Some 4200\<rparr>)) =
     \<lparr>sel_channelId = Some 2, sel_messageOffsetId = Some 0\<rparr> \<and>
   fst (configureDownload (constructor {})
     \<lparr>cfg_channelId = Some 1, cfg_downloadableFiles = None\<rparr>
     \<lparr>source_channel = 9, upload_answer = False, target_channel = 7\<rparr>
     \<lparr>sel_channelId = Some 1, sel_messageOffsetId = Some 4200\<rparr>) = (1, 4200)"
proof -
  let ?ui = "\<lparr>source_channel = 9, upload_answer = False, target_channel = 7\<rparr>"
  let ?last = "\<lparr>sel_channelId = Some 1, sel_messageOffsetId = Some 4200\<rparr>"
  let ?c = "configureDownload (constructor {}) \<lparr>cfg_channelId = Some 2, cfg_downloadableFiles = None\<rparr>
      ?ui ?last"
  have b: "fst (fst ?c) = 2"
    by (simp add: configureDownload_def Let_def)
  have c: "?c = ((2, snd (fst ?c)), fst (snd ?c), snd (snd ?c))"
    using b by (simp add: prod_eq_iff)
  have l: "sel_channelId ?last = Some 1 \<and> (1::int) \<noteq> 2" by simp
  have s: "fst (configureDownload (constructor {}) \<lparr>cfg_channelId = Some 1, cfg_downloadableFiles = None\<rparr>
      ?ui ?last) = (1, 4200)"
    by (simp add: configureDownload_def Let_def)
  from configureDownload_channel_switch [OF c, of 1] l
  have "snd (fst ?c) = 0 \<and> snd (snd ?c) = \<lparr>sel_channelId = Some 2, sel_messageOffsetId = Some 0\<rparr>"
    by blast
  with s show ?thesis by simp
qed

section \<open>Properties of the media transfer\<close>

lemmas concrete_defs =
  quiet_env_def failing_env_def local_world_def upload_world_def constructor_def
  text_message_def photo_message_def poll_message_def sticker_message_def empty_message_def
  no_media_def string_of_int_def string_of_nat.simps digit_char_def

lemmas pipeline_defs =
  processMessage_def processMessage_try_def downloadMessage_def checkFileExist_def
  downloadMessageMedia_def downloadMessageMedia_try_def webpage_step_def transfer_def
  sticker_transfer_def sidecar_def writeFile_def sibling_def uploadMessage_def
  uploadMessageToChannel_def uploadMessageToChannel_try_def sendMessage_def local_file_def
  special_payload_def attach_local_def attach_reference_def has_text_def emit_def
  or_else_def Let_def
  DOWNLOAD_DELAY_def UPLOAD_DELAY_def

lemma photo_path:
  "getMediaPath quiet_env (photo_message 2) ''export/1'' = ''export/1/2_file.JPG''"
  by (simp add: concrete_defs)

text \<open>
  C6. For a message with media whose media path exists on disk, \<^verbatim>\<open>downloadMessage\<close>
  returns that path and leaves the object, the disk and the calls made as they were: no
  transfer, no increment of \<^verbatim>\<open>totalDownloaded\<close>. So a second call finds the same state and
  returns the same path, again without a transfer.
\<close>

theorem downloadMessage_idempotent:
  "msg_media m \<noteq> None \<Longrightarrow> getMediaPath env m (outputFolder w) \<in> disk w \<Longrightarrow>
   downloadMessage env w m = (Some (getMediaPath env m (outputFolder w)), w) \<and>
   downloadMessage env (snd (downloadMessage env w m)) m =
     (Some (getMediaPath env m (outputFolder w)), w)"
  by (auto simp: downloadMessage_def checkFileExist_def)

theorem downloadMessage_idempotent_witness:
  "downloadMessage quiet_env (local_world {''export/1/2_file.JPG''}) (photo_message 2) =
     (Some ''export/1/2_file.JPG'', local_world {''export/1/2_file.JPG''}) \<and>
   downloadMessage quiet_env
     (snd (downloadMessage quiet_env (local_world {''export/1/2_file.JPG''}) (photo_message 2)))
     (photo_message 2) =
     (Some ''export/1/2_file.JPG'', local_world {''export/1/2_file.JPG''}) \<and>
   effects (local_world {''export/1/2_file.JPG''}) = [] \<and>
   totalDownloaded (local_world {''export/1/2_file.JPG''}) = 0"
proof -
  have m: "msg_media (photo_message 2) \<noteq> None"
    by (simp add: photo_message_def text_message_def)
  have d: "getMediaPath quiet_env (photo_message 2)
      (outputFolder (local_world {''export/1/2_file.JPG''})) \<in>
      disk (local_world {''export/1/2_file.JPG''})"
    by (simp add: concrete_defs)
  have o: "outputFolder (local_world {''export/1/2_file.JPG''}) = ''export/1''"
    by (simp add: local_world_def)
  show ?thesis
    using downloadMessage_idempotent [OF m d] photo_path
    by (simp add: o local_world_def constructor_def)
qed

text \<open>
  When the file is not there yet, the first call transfers it and counts it, and the
  second call returns the same path without a transfer.
\<close>

lemma download_then_again:
  "downloadMessage quiet_env (local_world {}) (photo_message 2) =
     (Some ''export/1/2_file.JPG'',
      (local_world {})\<lparr>totalDownloaded := 1, disk := {''export/1/2_file.JPG''},
         effects := [DownloadMedia 2 ''export/1/2_file.JPG'']\<rparr>) \<and>
   downloadMessage quiet_env
     ((local_world {})\<lparr>totalDownloaded := 1, disk := {''export/1/2_file.JPG''},
         effects := [DownloadMedia 2 ''export/1/2_file.JPG'']\<rparr>) (photo_message 2) =
     (Some ''export/1/2_file.JPG'',
      (local_world {})\<lparr>totalDownloaded := 1, disk := {''export/1/2_file.JPG''},
         effects := [DownloadMedia 2 ''export/1/2_file.JPG'']\<rparr>)"
  by (simp add: pipeline_defs concrete_defs)

section \<open>Properties of the pipeline of one message\<close>

lemma steady_refl [simp]: "steady w w"
  by (simp add: steady_def)

lemma steady_trans: "steady a b \<Longrightarrow> steady b c \<Longrightarrow> steady a c"
  by (simp add: steady_def)

lemma steady_emit [simp]:
  "steady w (emit (Wait t) w')  = steady w w'"
  "steady w (emit (WriteFile p) w') = steady w w'"
  "steady w (emit (DownloadMedia i p) w') = steady w w'"
  "steady w (emit (ForwardMessages t' i) w') = steady w w'"
  "steady w (emit (SendMessage t' opts) w') = steady w w'"
  "steady w (emit (Unlink p) w') = steady w w'"
  by (simp_all add: steady_def emit_def sticker_transfers_def)

lemma steady_emit_left [simp]:
  "steady (emit (Wait t) w) w'  = steady w w'"
  "steady (emit (WriteFile p) w) w' = steady w w'"
  "steady (emit (DownloadMedia i p) w) w' = steady w w'"
  "steady (emit (ForwardMessages t' i) w) w' = steady w w'"
  "steady (emit (SendMessage t' opts) w) w' = steady w w'"
  "steady (emit (Unlink p) w) w' = steady w w'"
  by (simp_all add: steady_def emit_def sticker_transfers_def)

lemma steady_update [simp]:
  "steady w (w'\<lparr>disk := d\<rparr>) = steady w w'"
  "steady w (w'\<lparr>totalDownloaded := n\<rparr>) = steady w w'"
  "steady w (w'\<lparr>totalUploaded := n\<rparr>) = steady w w'"
  by (simp_all add: steady_def)

lemma writeFile_steady: "writeFile env w p = (r, w') \<Longrightarrow> steady w w'"
  by (auto simp: writeFile_def Let_def split: option.splits)

lemma sidecar_steady: "sidecar env w p = (r, w') \<Longrightarrow> steady w w'"
  by (auto simp: sidecar_def split: prod.splits option.splits dest: writeFile_steady)

lemma transfer_steady: "transfer env w m p = (r, w') \<Longrightarrow> steady w w'"
  by (auto simp: transfer_def Let_def split: option.splits)

lemma webpage_step_steady: "webpage_step env w m md p = (r, p', w') \<Longrightarrow> steady w w'"
  by (auto simp: webpage_step_def split: option.splits prod.splits if_splits dest: writeFile_steady)

lemma downloadMessageMedia_try_steady:
  assumes "downloadMessageMedia_try env w m p = (r, w')" and md: "msg_media m = Some md"
  shows "steady w w'"
proof -
  obtain r1 p1 w1 where ws: "webpage_step env w m md p = (r1, p1, w1)"
    by (cases "webpage_step env w m md p") auto
  have s1: "steady w w1" using ws by (rule webpage_step_steady)
  show ?thesis
  proof (cases "p = []")
    case True
    with assms(1) show ?thesis by (simp add: downloadMessageMedia_try_def)
  next
    case False
    show ?thesis
    proof (cases r1)
      case (Some res)
      with assms(1) md ws False s1 show ?thesis
        by (simp add: downloadMessageMedia_try_def)
    next
      case None
      with assms(1) md ws False have "steady w1 w'"
        by (auto simp: downloadMessageMedia_try_def split: if_splits
            dest: sidecar_steady transfer_steady)
      with s1 show ?thesis by (rule steady_trans)
    qed
  qed
qed

lemma downloadMessageMedia_steady:
  "downloadMessageMedia env w m p = (r, w') \<Longrightarrow> msg_media m = Some md \<Longrightarrow> steady w w'"
  by (auto simp: downloadMessageMedia_def split: prod.splits sum.splits
      dest: downloadMessageMedia_try_steady)

lemma downloadMessage_steady: "downloadMessage env w m = (r, w') \<Longrightarrow> steady w w'"
  by (auto simp: downloadMessage_def Let_def split: option.splits if_splits prod.splits bool.splits
      dest: downloadMessageMedia_steady)

lemma sendMessage_steady: "sendMessage env w t opts = (r, w') \<Longrightarrow> steady w w'"
  by (auto simp: sendMessage_def Let_def)

lemma uploadMessageToChannel_try_steady:
  "uploadMessageToChannel_try env w target m mediaPath = (r, w') \<Longrightarrow> steady w w'"
  by (auto simp: uploadMessageToChannel_try_def Let_def
      split: option.splits if_splits sum.splits dest: sendMessage_steady)

lemma uploadMessageToChannel_steady:
  "uploadMessageToChannel env w target m mediaPath = (r, w') \<Longrightarrow> steady w w'"
  by (auto simp: uploadMessageToChannel_def split: prod.splits sum.splits
      dest: uploadMessageToChannel_try_steady)

lemma uploadMessage_steady: "uploadMessage env w m mediaPath = (r, w') \<Longrightarrow> steady w w'"
  by (auto simp: uploadMessage_def Let_def
      split: if_splits prod.splits sum.splits bool.splits option.splits
      dest: uploadMessageToChannel_steady)

lemma processMessage_steady:
  "\<exists>w3. steady w w3 \<and>
     processMessage env w m index count =
       w3\<lparr>totalProcessedMessages := totalProcessedMessages w3 + 1\<rparr>"
proof -
  obtain p1 h1 w1 where s1:
    "(if msg_media m \<noteq> None
      then (case downloadMessage env w m of (p, w') \<Rightarrow> (p, True, emit (Wait DOWNLOAD_DELAY) w'))
      else (None, has_text m, w)) = (p1, h1, w1)"
    using prod_cases3 by blast
  have st1: "steady w w1"
    using s1 by (auto split: if_splits prod.splits dest: downloadMessage_steady)
  obtain p2 h2 w2 where s2:
    "(if msg_sticker m
      then (case downloadMessage env w1 m of (p, w') \<Rightarrow> (p, True, emit (Wait DOWNLOAD_DELAY) w'))
      else (p1, h1, w1)) = (p2, h2, w2)"
    using prod_cases3 by blast
  have st2: "steady w1 w2"
    using s2 by (auto split: if_splits prod.splits dest: downloadMessage_steady)
  define w3 where "w3 =
    (if uploadMode w2 \<and> h2
     then (case uploadMessage env w2 m p2 of (uploadSuccess, w') \<Rightarrow> emit (Wait UPLOAD_DELAY) w')
     else w2)"
  have st3: "steady w2 w3"
    unfolding w3_def by (auto split: prod.splits dest: uploadMessage_steady)
  have "processMessage env w m index count =
      w3\<lparr>totalProcessedMessages := totalProcessedMessages w3 + 1\<rparr>"
    unfolding processMessage_def processMessage_try_def Let_def
    apply (simp only: s1 prod.case)
    apply (simp only: s2 prod.case)
    apply (simp add: w3_def)
    done
  moreover have "steady w w3"
    using st1 st2 st3 by (blast intro: steady_trans)
  ultimately show ?thesis by blast
qed

text \<open>
  C2. Whatever the calls to the client and to the file system do, throwing included,
  \<^verbatim>\<open>processMessage\<close> returns to its caller and has counted the message: the errors of the
  download and of the upload end in the \<^verbatim>\<open>catch\<close> blocks of \<^verbatim>\<open>downloadMessageMedia\<close> and
  \<^verbatim>\<open>uploadMessage\<close>, before the increment.
\<close>

theorem processMessage_counts_failures:
  "totalProcessedMessages (processMessage env w m index count) = totalProcessedMessages w + 1"
  using processMessage_steady [of w env m index count] by (auto simp: steady_def)

text \<open>
  A message whose download and upload both fail: the transfer, the forward and the send
  are tried and throw, nothing is counted as downloaded or uploaded, and the message is
  counted as processed.
\<close>

lemma failed_message_effects:
  "effects (processMessage failing_env (upload_world {}) (photo_message 2) 0 1) =
   [DownloadMedia 2 ''export/1/2_file.JPG'', Wait 200, ForwardMessages 7 2,
    SendMessage 7
      \<lparr>opt_message = ''caption'', opt_entities = [], opt_silent = True, opt_workers = 16,
       opt_chunkSize = 4194304, opt_file = Some PhotoRef, opt_supportsStreaming = False,
       opt_attributes = None, opt_mimeType = None, opt_videoNote = False,
       opt_voiceNote = False, opt_sticker = False\<rparr>,
    Wait 300]"
  by (simp add: pipeline_defs concrete_defs)

lemma failed_message_counters:
  "totalDownloaded (processMessage failing_env (upload_world {}) (photo_message 2) 0 1) = 0 \<and>
   totalUploaded (processMessage failing_env (upload_world {}) (photo_message 2) 0 1) = 0"
  by (simp add: pipeline_defs concrete_defs)

theorem processMessage_counts_failures_witness:
  "totalProcessedMessages (processMessage failing_env (upload_world {}) (photo_message 2) 0 1) = 1 \<and>
   totalDownloaded (processMessage failing_env (upload_world {}) (photo_message 2) 0 1) = 0 \<and>
   totalUploaded (processMessage failing_env (upload_world {}) (photo_message 2) 0 1) = 0"
  using processMessage_counts_failures [of failing_env "upload_world {}" "photo_message 2" 0 1]
    failed_message_counters
  by (simp add: upload_world_def local_world_def constructor_def)

text \<open>
  C9. For a message without media \<^verbatim>\<open>downloadMessage\<close> returns \<^verbatim>\<open>null\<close> and changes nothing,
  sticker or not; and \<^verbatim>\<open>processMessage\<close> adds no transfer of the sticker branch of
  \<^verbatim>\<open>downloadMessageMedia\<close> to the calls made.
\<close>

theorem sticker_branch_unreached:
  "(msg_media m = None \<longrightarrow> downloadMessage env w m = (None, w)) \<and>
   sticker_transfers (effects (processMessage env w m' index count)) =
     sticker_transfers (effects w)"
  using processMessage_steady [of w env m' index count]
  by (auto simp: steady_def downloadMessage_def)

text \<open>Called on its own, the sticker branch does transfer.\<close>

lemma sticker_branch_direct:
  "downloadMessageMedia quiet_env (local_world {}) (sticker_message 4) ''export/1/4_file'' =
   (True, (local_world {})\<lparr>disk := {''export/1/4_sticker.webp''},
       effects := [DownloadSticker 4 ''export/1/4_sticker.webp'']\<rparr>)"
  by (simp add: pipeline_defs concrete_defs)

lemma sticker_message_effects:
  "effects (processMessage quiet_env (upload_world {}) (sticker_message 4) 0 1) =
   [Wait 200,
    SendMessage 7
      \<lparr>opt_message = [], opt_entities = [], opt_silent = True, opt_workers = 16,
       opt_chunkSize = 4194304, opt_file = Some StickerRef, opt_supportsStreaming = False,
       opt_attributes = None, opt_mimeType = None, opt_videoNote = False,
       opt_voiceNote = False, opt_sticker = True\<rparr>,
    Wait 300]"
  by (simp add: pipeline_defs concrete_defs)

theorem sticker_branch_unreached_witness:
  "msg_media (sticker_message 4) = None \<and> msg_sticker (sticker_message 4) \<and>
   downloadMessage quiet_env (upload_world {}) (sticker_message 4) = (None, upload_world {}) \<and>
   sticker_transfers (effects (processMessage quiet_env (upload_world {}) (sticker_message 4) 0 1)) = []"
proof -
  have m: "msg_media (sticker_message 4) = None" "msg_sticker (sticker_message 4)"
    by (simp_all add: sticker_message_def text_message_def)
  have e: "sticker_transfers (effects (upload_world {})) = []"
    by (simp add: sticker_transfers_def upload_world_def local_world_def constructor_def)
  show ?thesis
    using sticker_branch_unreached [of "sticker_message 4" quiet_env "upload_world {}"
        "sticker_message 4" 0 1] m e
    by simp
qed

section \<open>Properties of the upload\<close>

lemma str_includes_sublist: "str_includes s sub \<longleftrightarrow> sublist sub s"
  by (induction s) (simp_all add: sublist_Cons_right)

lemma sublist_join: "x \<in> set xs \<Longrightarrow> sublist x (join sep xs)"
proof (induction sep xs rule: join.induct)
  case (1 sep)
  then show ?case by simp
next
  case (2 sep y)
  then show ?case by simp
next
  case (3 sep y z zs)
  show ?case
  proof (cases "x = y")
    case True
    then show ?thesis by simp
  next
    case False
    with 3 have "sublist x (join sep (z # zs))" by simp
    then obtain ps ss where "join sep (z # zs) = ps @ x @ ss" by (auto simp: sublist_def)
    then have "join sep (y # z # zs) = (y @ sep @ ps) @ x @ ss" by simp
    then show ?thesis unfolding sublist_def by blast
  qed
qed

lemma poll_options_includes:
  assumes "k < length as"
  shows "sublist (string_of_nat (k + 1) @ ''. '' @ as ! k) (poll_options as)"
proof -
  have "map (\<lambda>(i, ans). string_of_nat (i + 1) @ ''. '' @ ans) (enumerate 0 as) ! k =
      string_of_nat (k + 1) @ ''. '' @ as ! k"
    using assms by (simp add: nth_enumerate_eq)
  then have "string_of_nat (k + 1) @ ''. '' @ as ! k \<in>
      set (map (\<lambda>(i, ans). string_of_nat (i + 1) @ ''. '' @ ans) (enumerate 0 as))"
    using assms by (metis length_enumerate length_map nth_mem)
  then show ?thesis unfolding poll_options_def by (rule sublist_join)
qed

lemma sublist_mid: "sublist x b \<Longrightarrow> sublist x (a @ b @ c)"
  by (metis sublist_append)

lemma poll_text_includes:
  "str_includes (poll_text pd c) (question pd) \<and>
   (\<forall>k < length (answers pd).
      str_includes (poll_text pd c) (string_of_nat (k + 1) @ ''. '' @ answers pd ! k))"
proof -
  have q: "poll_text pd c = (glyph_poll @ '' Poll: '') @ question pd @
      (nl @ nl @ ''Options:'' @ nl @ poll_options (answers pd) @ nl @ nl @ c)"
    by (simp add: poll_text_def)
  have o: "poll_text pd c = (glyph_poll @ '' Poll: '' @ question pd @ nl @ nl @ ''Options:'' @ nl) @
      poll_options (answers pd) @ (nl @ nl @ c)"
    by (simp add: poll_text_def)
  have "sublist (question pd) (poll_text pd c)"
    unfolding q by (rule sublist_appendI)
  moreover have "sublist (string_of_nat (k + 1) @ ''. '' @ answers pd ! k) (poll_text pd c)"
    if "k < length (answers pd)" for k
    unfolding o using poll_options_includes [OF that] by (rule sublist_mid)
  ultimately show ?thesis by (simp add: str_includes_sublist)
qed

lemma special_payload_text:
  assumes "payload_glyph md = Some g"
  shows "opt_file (special_payload md c opts) = None \<and>
     prefix g (opt_message (special_payload md c opts)) \<and>
     suffix (nl @ nl @ c) (opt_message (special_payload md c opts)) \<and>
     (\<forall>pd. poll md = Some pd \<longrightarrow> opt_message (special_payload md c opts) = poll_text pd c)"
proof -
  have s1: "suffix (nl @ nl @ c) (poll_text pd c)" for pd
    by (rule suffixI [where zs = "glyph_poll @ '' Poll: '' @ question pd @ nl @ nl @ ''Options:'' @
          nl @ poll_options (answers pd)"]) (simp add: poll_text_def)
  have s2: "suffix (nl @ nl @ c) (geo_text gp c)" for gp
    by (rule suffixI [where zs = "glyph_geo @ '' Location: '' @ lat gp @ '', '' @ long gp"])
      (simp add: geo_text_def)
  have s3: "suffix (nl @ nl @ c) (contact_text cp c)" for cp
    by (rule suffixI [where zs = "glyph_contact @ '' Contact: '' @ firstName cp @ '' '' @
          or_else (lastName cp) [] @ nl @ ''Phone: '' @ phoneNumber cp"])
      (simp add: contact_text_def)
  have s4: "suffix (nl @ nl @ c) (venue_text vp c)" for vp
    by (rule suffixI [where zs = "glyph_venue @ '' Venue: '' @ venue_title vp @ nl @
          ''Address: '' @ address vp"])
      (simp add: venue_text_def)
  have s5: "suffix (nl @ nl @ c) (webpage_text wp c)" for wp
    by (rule suffixI [where zs = "glyph_webpage @ '' '' @ or_else (webpage_title wp) ''Webpage'' @
          nl @ template (url wp) @ nl @ or_else (description wp) []"])
      (simp add: webpage_text_def)
  have p: "prefix glyph_poll (poll_text pd c)" "prefix glyph_geo (geo_text gp c)"
    "prefix glyph_contact (contact_text cp c)" "prefix glyph_venue (venue_text vp c)"
    "prefix glyph_webpage (webpage_text wp c)" for pd gp cp vp wp
    by (simp_all add: poll_text_def geo_text_def contact_text_def venue_text_def webpage_text_def)
  show ?thesis
    using assms s1 s2 s3 s4 s5 p
    by (auto simp: special_payload_def payload_glyph_def split: option.splits if_splits)
qed

lemma uploadMessageToChannel_world:
  "snd (uploadMessageToChannel env w target m mediaPath) =
   snd (uploadMessageToChannel_try env w target m mediaPath)"
  by (simp add: uploadMessageToChannel_def split: prod.splits sum.splits)

lemma sendMessage_effects:
  "effects (snd (sendMessage env w t opts)) = effects w @ [SendMessage t opts]"
  by (simp add: sendMessage_def Let_def emit_def)

lemma special_payload_kinds:
  "(\<forall>pd. poll md = Some pd \<longrightarrow>
      opt_message (special_payload md c opts) = poll_text pd c) \<and>
   (\<forall>gp. poll md = None \<and> geo md = Some gp \<longrightarrow>
      opt_message (special_payload md c opts) = geo_text gp c) \<and>
   (\<forall>cp. poll md = None \<and> geo md = None \<and> contact md = Some cp \<longrightarrow>
      opt_message (special_payload md c opts) = contact_text cp c) \<and>
   (\<forall>vp. poll md = None \<and> geo md = None \<and> contact md = None \<and> venue md = Some vp \<longrightarrow>
      opt_message (special_payload md c opts) = venue_text vp c) \<and>
   (\<forall>wp. poll md = None \<and> geo md = None \<and> contact md = None \<and> venue md = None \<and>
         webpage md = Some wp \<longrightarrow>
      opt_message (special_payload md c opts) = webpage_text wp c)"
  by (simp add: special_payload_def)

lemma uploadMessageToChannel_forwarded:
  assumes "target = Some t" "t \<noteq> 0" "msg_media m = Some md"
    and "local_file w mediaPath = None"
    and "client_forwardMessages env (emit (ForwardMessages t (msg_id m)) w) t m = Inr result"
  shows "uploadMessageToChannel env w target m mediaPath =
     (Inr result, emit (ForwardMessages t (msg_id m)) w)"
  using assms by (simp add: uploadMessageToChannel_def uploadMessageToChannel_try_def Let_def)

text \<open>
  C4, as the code has it. For a message whose media carry a poll, a location, a contact,
  a venue or a web page: when the local file exists or forwarding the message has
  failed, \<^verbatim>\<open>uploadMessageToChannel\<close> ends with one \<^verbatim>\<open>sendMessage\<close>, after the forward that
  failed if there was one. No file is attached, and the text is the summary of the first
  payload present, in the order poll, location, contact, venue, web page: its glyph and
  its fields as written out below, then an empty line and the original caption; for a
  poll it contains the question and every answer behind its number. When there is no
  local file and the forward returns, that is the whole call: the result of the forward
  is returned and nothing is sent.
\<close>

theorem upload_structured_payload:
  assumes target: "target = Some t" "t \<noteq> 0"
    and media: "msg_media m = Some md"
    and glyph: "payload_glyph md = Some g"
  shows
    "(local_file w mediaPath \<noteq> None \<or>
      (\<exists>e. client_forwardMessages env (emit (ForwardMessages t (msg_id m)) w) t m = Inl e) \<longrightarrow>
      (\<exists>opts pre.
         effects (snd (uploadMessageToChannel env w target m mediaPath)) =
           effects w @ pre @ [SendMessage t opts] \<and>
         (pre = [] \<or> pre = [ForwardMessages t (msg_id m)]) \<and>
         opt_file opts = None \<and>
         prefix g (opt_message opts) \<and>
         suffix (nl @ nl @ or_else (msg_message m) []) (opt_message opts) \<and>
         (\<forall>pd. poll md = Some pd \<longrightarrow>
            opt_message opts =
              glyph_poll @ '' Poll: '' @ question pd @ nl @ nl @ ''Options:'' @ nl @
              poll_options (answers pd) @ nl @ nl @ or_else (msg_message m) [] \<and>
            str_includes (opt_message opts) (question pd) \<and>
            (\<forall>k < length (answers pd).
               str_includes (opt_message opts)
                 (string_of_nat (k + 1) @ ''. '' @ answers pd ! k))) \<and>
         (\<forall>gp. poll md = None \<and> geo md = Some gp \<longrightarrow>
            opt_message opts =
              glyph_geo @ '' Location: '' @ lat gp @ '', '' @ long gp @ nl @ nl @
              or_else (msg_message m) []) \<and>
         (\<forall>cp. poll md = None \<and> geo md = None \<and> contact md = Some cp \<longrightarrow>
            opt_message opts =
              glyph_contact @ '' Contact: '' @ firstName cp @ '' '' @ or_else (lastName cp) [] @
              nl @ ''Phone: '' @ phoneNumber cp @ nl @ nl @ or_else (msg_message m) []) \<and>
         (\<forall>vp. poll md = None \<and> geo md = None \<and> contact md = None \<and> venue md = Some vp \<longrightarrow>
            opt_message opts =
              glyph_venue @ '' Venue: '' @ venue_title vp @ nl @ ''Address: '' @ address vp @
              nl @ nl @ or_else (msg_message m) []) \<and>
         (\<forall>wp. poll md = None \<and> geo md = None \<and> contact md = None \<and> venue md = None \<and>
               webpage md = Some wp \<longrightarrow>
            opt_message opts =
              glyph_webpage @ '' '' @ or_else (webpage_title wp) ''Webpage'' @ nl @
              template (url wp) @ nl @ or_else (description wp) [] @ nl @ nl @
              or_else (msg_message m) []))) \<and>
     (\<forall>result.
        local_file w mediaPath = None \<and>
        client_forwardMessages env (emit (ForwardMessages t (msg_id m)) w) t m = Inr result \<longrightarrow>
        uploadMessageToChannel env w target m mediaPath =
          (Inr result, emit (ForwardMessages t (msg_id m)) w))"
proof (intro conjI impI allI)
  fix result
  assume "local_file w mediaPath = None \<and>
    client_forwardMessages env (emit (ForwardMessages t (msg_id m)) w) t m = Inr result"
  then show "uploadMessageToChannel env w target m mediaPath =
      (Inr result, emit (ForwardMessages t (msg_id m)) w)"
    using uploadMessageToChannel_forwarded [OF target media] by blast
next
  let ?c = "or_else (msg_message m) []"
  let ?good = "\<lambda>opts.
     opt_file opts = None \<and>
     prefix g (opt_message opts) \<and>
     suffix (nl @ nl @ ?c) (opt_message opts) \<and>
     (\<forall>pd. poll md = Some pd \<longrightarrow>
        opt_message opts =
          glyph_poll @ '' Poll: '' @ question pd @ nl @ nl @ ''Options:'' @ nl @
          poll_options (answers pd) @ nl @ nl @ ?c \<and>
        str_includes (opt_message opts) (question pd) \<and>
        (\<forall>k < length (answers pd).
           str_includes (opt_message opts)
             (string_of_nat (k + 1) @ ''. '' @ answers pd ! k))) \<and>
     (\<forall>gp. poll md = None \<and> geo md = Some gp \<longrightarrow>
        opt_message opts =
          glyph_geo @ '' Location: '' @ lat gp @ '', '' @ long gp @ nl @ nl @ ?c) \<and>
     (\<forall>cp. poll md = None \<and> geo md = None \<and> contact md = Some cp \<longrightarrow>
        opt_message opts =
          glyph_contact @ '' Contact: '' @ firstName cp @ '' '' @ or_else (lastName cp) [] @
          nl @ ''Phone: '' @ phoneNumber cp @ nl @ nl @ ?c) \<and>
     (\<forall>vp. poll md = None \<and> geo md = None \<and> contact md = None \<and> venue md = Some vp \<longrightarrow>
        opt_message opts =
          glyph_venue @ '' Venue: '' @ venue_title vp @ nl @ ''Address: '' @ address vp @
          nl @ nl @ ?c) \<and>
     (\<forall>wp. poll md = None \<and> geo md = None \<and> contact md = None \<and> venue md = None \<and>
           webpage md = Some wp \<longrightarrow>
        opt_message opts =
          glyph_webpage @ '' '' @ or_else (webpage_title wp) ''Webpage'' @ nl @
          template (url wp) @ nl @ or_else (description wp) [] @ nl @ nl @ ?c)"
  assume reach: "local_file w mediaPath \<noteq> None \<or>
    (\<exists>e. client_forwardMessages env (emit (ForwardMessages t (msg_id m)) w) t m = Inl e)"
  have body: "?good (special_payload md ?c o1)" for o1
    using special_payload_text [OF glyph, of ?c o1] special_payload_kinds [of md ?c o1]
      poll_text_includes [of _ ?c]
    by (simp add: poll_text_def geo_text_def contact_text_def venue_text_def webpage_text_def)
  have "\<exists>opts pre.
     effects (snd (uploadMessageToChannel env w target m mediaPath)) =
       effects w @ pre @ [SendMessage t opts] \<and>
     (pre = [] \<or> pre = [ForwardMessages t (msg_id m)]) \<and> ?good opts"
  proof (cases "local_file w mediaPath")
    case (Some p)
    then obtain o1 where
      "uploadMessageToChannel_try env w target m mediaPath =
         sendMessage env w t (special_payload md ?c o1)"
      using target media by (simp add: uploadMessageToChannel_try_def Let_def)
    then have "effects (snd (uploadMessageToChannel env w target m mediaPath)) =
        effects w @ [] @ [SendMessage t (special_payload md ?c o1)]"
      by (simp add: uploadMessageToChannel_world sendMessage_effects)
    with body [of o1] show ?thesis by blast
  next
    case None
    with reach obtain e where
      "client_forwardMessages env (emit (ForwardMessages t (msg_id m)) w) t m = Inl e"
      by auto
    with None obtain o1 where
      "uploadMessageToChannel_try env w target m mediaPath =
         sendMessage env (emit (ForwardMessages t (msg_id m)) w) t (special_payload md ?c o1)"
      using target media by (simp add: uploadMessageToChannel_try_def Let_def)
    then have "effects (snd (uploadMessageToChannel env w target m mediaPath)) =
        effects w @ [ForwardMessages t (msg_id m)] @ [SendMessage t (special_payload md ?c o1)]"
      by (simp add: uploadMessageToChannel_world sendMessage_effects emit_def)
    with body [of o1] show ?thesis by blast
  qed
  then show "\<exists>opts pre.
     effects (snd (uploadMessageToChannel env w target m mediaPath)) =
       effects w @ pre @ [SendMessage t opts] \<and>
     (pre = [] \<or> pre = [ForwardMessages t (msg_id m)]) \<and>
     opt_file opts = None \<and>
     prefix g (opt_message opts) \<and>
     suffix (nl @ nl @ or_else (msg_message m) []) (opt_message opts) \<and>
     (\<forall>pd. poll md = Some pd \<longrightarrow>
        opt_message opts =
          glyph_poll @ '' Poll: '' @ question pd @ nl @ nl @ ''Options:'' @ nl @
          poll_options (answers pd) @ nl @ nl @ or_else (msg_message m) [] \<and>
        str_includes (opt_message opts) (question pd) \<and>
        (\<forall>k < length (answers pd).
           str_includes (opt_message opts)
             (string_of_nat (k + 1) @ ''. '' @ answers pd ! k))) \<and>
     (\<forall>gp. poll md = None \<and> geo md = Some gp \<longrightarrow>
        opt_message opts =
          glyph_geo @ '' Location: '' @ lat gp @ '', '' @ long gp @ nl @ nl @
          or_else (msg_message m) []) \<and>
     (\<forall>cp. poll md = None \<and> geo md = None \<and> contact md = Some cp \<longrightarrow>
        opt_message opts =
          glyph_contact @ '' Contact: '' @ firstName cp @ '' '' @ or_else (lastName cp) [] @
          nl @ ''Phone: '' @ phoneNumber cp @ nl @ nl @ or_else (msg_message m) []) \<and>
     (\<forall>vp. poll md = None \<and> geo md = None \<and> contact md = None \<and> venue md = Some vp \<longrightarrow>
        opt_message opts =
          glyph_venue @ '' Venue: '' @ venue_title vp @ nl @ ''Address: '' @ address vp @
          nl @ nl @ or_else (msg_message m) []) \<and>
     (\<forall>wp. poll md = None \<and> geo md = None \<and> contact md = None \<and> venue md = None \<and>
           webpage md = Some wp \<longrightarrow>
        opt_message opts =
          glyph_webpage @ '' '' @ or_else (webpage_title wp) ''Webpage'' @ nl @
          template (url wp) @ nl @ or_else (description wp) [] @ nl @ nl @
          or_else (msg_message m) [])"
    by simp
qed

lemma poll_scenario:
  "uploadMessageToChannel restricted_env (upload_world {''export/1/3_poll.json''}) (Some 7)
     (poll_message 3) (Some ''export/1/3_file.JPG'') =
   (Inr True,
    (upload_world {''export/1/3_poll.json''})
      \<lparr>effects :=
         [ForwardMessages 7 3,
          SendMessage 7
            \<lparr>opt_message = glyph_poll @ '' Poll: Q'' @ nl @ nl @ ''Options:'' @ nl @ ''1. A'' @ nl @
               ''2. B'' @ nl @ nl,
             opt_entities = [], opt_silent = True, opt_workers = 16, opt_chunkSize = 4194304,
             opt_file = None, opt_supportsStreaming = False, opt_attributes = None,
             opt_mimeType = None, opt_videoNote = False, opt_voiceNote = False,
             opt_sticker = False\<rparr>]\<rparr>)"
  by (simp add: pipeline_defs concrete_defs restricted_env_def poll_text_def poll_options_def
      enumerate_eq_zip upt_rec)

lemma geo_scenario:
  "uploadMessageToChannel quiet_env (upload_world {''export/1/5_file.JPG''}) (Some 7)
     (geo_message 5) (Some ''export/1/5_file.JPG'') =
   (Inr True,
    (upload_world {''export/1/5_file.JPG''})
      \<lparr>effects :=
         [SendMessage 7
            \<lparr>opt_message = glyph_geo @ '' Location: 48.85, 2.35'' @ nl @ nl @ ''here'',
             opt_entities = [], opt_silent = True, opt_workers = 16, opt_chunkSize = 4194304,
             opt_file = None, opt_supportsStreaming = False, opt_attributes = None,
             opt_mimeType = None, opt_videoNote = False, opt_voiceNote = False,
             opt_sticker = False\<rparr>]\<rparr>)"
  by (simp add: pipeline_defs concrete_defs geo_message_def geo_text_def)

theorem upload_structured_payload_witness:
  "(\<exists>opts. effects (snd (uploadMessageToChannel restricted_env
        (upload_world {''export/1/3_poll.json''}) (Some 7) (poll_message 3)
        (Some ''export/1/3_file.JPG''))) =
      [ForwardMessages 7 3, SendMessage 7 opts] \<and>
     opt_file opts = None \<and>
     opt_message opts =
       glyph_poll @ '' Poll: Q'' @ nl @ nl @ ''Options:'' @ nl @ ''1. A'' @ nl @ ''2. B'' @ nl @ nl \<and>
     str_includes (opt_message opts) ''Q'' \<and>
     str_includes (opt_message opts) ''1. A'' \<and>
     str_includes (opt_message opts) ''2. B'') \<and>
   (\<exists>opts. effects (snd (uploadMessageToChannel quiet_env
        (upload_world {''export/1/5_file.JPG''}) (Some 7) (geo_message 5)
        (Some ''export/1/5_file.JPG''))) =
      [SendMessage 7 opts] \<and>
     opt_file opts = None \<and>
     opt_message opts = glyph_geo @ '' Location: 48.85, 2.35'' @ nl @ nl @ ''here'') \<and>
   uploadMessageToChannel quiet_env (upload_world {''export/1/3_poll.json''}) (Some 7)
     (poll_message 3) (Some ''export/1/3_file.JPG'') =
     (Inr True, emit (ForwardMessages 7 3) (upload_world {''export/1/3_poll.json''}))"
proof -
  let ?w = "upload_world {''export/1/3_poll.json''}"
  let ?p = "Some ''export/1/3_file.JPG''"
  let ?pd = "\<lparr>question = ''Q'', answers = [''A'', ''B'']\<rparr>"
  let ?md = "no_media\<lparr>poll := Some ?pd\<rparr>"
  let ?wg = "upload_world {''export/1/5_file.JPG''}"
  let ?pg = "Some ''export/1/5_file.JPG''"
  let ?gp = "\<lparr>lat = ''48.85'', long = ''2.35''\<rparr>"
  let ?mg = "no_media\<lparr>geo := Some ?gp\<rparr>"
  have t: "Some 7 = Some (7::int)" "(7::int) \<noteq> 0" by simp_all
  have m: "msg_media (poll_message 3) = Some ?md"
    by (simp add: poll_message_def text_message_def)
  have g: "payload_glyph ?md = Some glyph_poll"
    by (simp add: payload_glyph_def no_media_def)
  have i: "msg_id (poll_message 3) = 3" "or_else (msg_message (poll_message 3)) [] = []"
    by (simp_all add: poll_message_def text_message_def or_else_def)
  have e: "effects ?w = []"
    by (simp add: upload_world_def local_world_def constructor_def)
  have p: "poll ?md = Some ?pd"
    by (simp add: no_media_def)
  have n: "string_of_nat (0 + 1) = ''1''" "string_of_nat (1 + 1) = ''2''"
    by (simp_all add: string_of_nat.simps digit_char_def)
  have po: "poll_options [''A'', ''B''] = ''1. A'' @ nl @ ''2. B''"
    by (simp add: poll_options_def enumerate_eq_zip upt_rec string_of_nat.simps digit_char_def)
  have l: "local_file ?w ?p = None"
    by (simp add: local_file_def upload_world_def local_world_def constructor_def)

  have r: "local_file ?w ?p \<noteq> None \<or>
      (\<exists>e. client_forwardMessages restricted_env
         (emit (ForwardMessages 7 (msg_id (poll_message 3))) ?w) 7 (poll_message 3) = Inl e)"
    by (simp add: restricted_env_def quiet_env_def)
  from upload_structured_payload
    [where env = restricted_env and w = ?w and mediaPath = ?p, OF t m g] r
  obtain opts pre where
    eff: "effects (snd (uploadMessageToChannel restricted_env ?w (Some 7) (poll_message 3) ?p)) =
        effects ?w @ pre @ [SendMessage 7 opts]"
    and pre: "pre = [] \<or> pre = [ForwardMessages 7 (msg_id (poll_message 3))]"
    and f: "opt_file opts = None"
    and inc: "\<forall>pd. poll ?md = Some pd \<longrightarrow>
        opt_message opts =
          glyph_poll @ '' Poll: '' @ question pd @ nl @ nl @ ''Options:'' @ nl @
          poll_options (answers pd) @ nl @ nl @ or_else (msg_message (poll_message 3)) [] \<and>
        str_includes (opt_message opts) (question pd) \<and>
        (\<forall>k < length (answers pd).
           str_includes (opt_message opts) (string_of_nat (k + 1) @ ''. '' @ answers pd ! k))"
    by blast
  from inc p have
    tx: "opt_message opts =
          glyph_poll @ '' Poll: '' @ question ?pd @ nl @ nl @ ''Options:'' @ nl @
          poll_options (answers ?pd) @ nl @ nl @ or_else (msg_message (poll_message 3)) []"
    and q: "str_includes (opt_message opts) (question ?pd)"
    and a: "\<And>k. k < length (answers ?pd) \<Longrightarrow> str_includes (opt_message opts)
        (string_of_nat (k + 1) @ ''. '' @ answers ?pd ! k)"
    by blast+
  have tx': "opt_message opts =
      glyph_poll @ '' Poll: Q'' @ nl @ nl @ ''Options:'' @ nl @ ''1. A'' @ nl @ ''2. B'' @ nl @ nl"
    using tx by (simp add: i po)
  have ab: "str_includes (opt_message opts) ''1. A''" "str_includes (opt_message opts) ''2. B''"
    using a [of 0] a [of 1] n by simp_all
  have "pre = [ForwardMessages 7 3]"
    using eff pre poll_scenario e i by auto
  with eff e f tx' q ab have first:
    "\<exists>opts. effects (snd (uploadMessageToChannel restricted_env ?w (Some 7) (poll_message 3) ?p)) =
      [ForwardMessages 7 3, SendMessage 7 opts] \<and>
     opt_file opts = None \<and>
     opt_message opts =
       glyph_poll @ '' Poll: Q'' @ nl @ nl @ ''Options:'' @ nl @ ''1. A'' @ nl @ ''2. B'' @ nl @ nl \<and>
     str_includes (opt_message opts) ''Q'' \<and>
     str_includes (opt_message opts) ''1. A'' \<and>
     str_includes (opt_message opts) ''2. B''"
    by auto

  have mg: "msg_media (geo_message 5) = Some ?mg"
    by (simp add: geo_message_def text_message_def)
  have gg: "payload_glyph ?mg = Some glyph_geo"
    by (simp add: payload_glyph_def no_media_def)
  have ig: "or_else (msg_message (geo_message 5)) [] = ''here''"
    by (simp add: geo_message_def text_message_def or_else_def)
  have eg: "effects ?wg = []"
    by (simp add: upload_world_def local_world_def constructor_def)
  have pg: "poll ?mg = None \<and> geo ?mg = Some ?gp"
    by (simp add: no_media_def)
  have rg: "local_file ?wg ?pg \<noteq> None \<or>
      (\<exists>e. client_forwardMessages quiet_env
         (emit (ForwardMessages 7 (msg_id (geo_message 5))) ?wg) 7 (geo_message 5) = Inl e)"
    by (simp add: local_file_def upload_world_def local_world_def constructor_def)
  from upload_structured_payload
    [where env = quiet_env and w = ?wg and mediaPath = ?pg, OF t mg gg] rg
  obtain optsg preg where
    effg: "effects (snd (uploadMessageToChannel quiet_env ?wg (Some 7) (geo_message 5) ?pg)) =
        effects ?wg @ preg @ [SendMessage 7 optsg]"
    and fg: "opt_file optsg = None"
    and kg: "\<forall>gp. poll ?mg = None \<and> geo ?mg = Some gp \<longrightarrow>
        opt_message optsg =
          glyph_geo @ '' Location: '' @ lat gp @ '', '' @ long gp @ nl @ nl @
          or_else (msg_message (geo_message 5)) []"
    by blast
  from kg pg have "opt_message optsg =
      glyph_geo @ '' Location: '' @ lat ?gp @ '', '' @ long ?gp @ nl @ nl @
      or_else (msg_message (geo_message 5)) []"
    by blast
  then have txg: "opt_message optsg = glyph_geo @ '' Location: 48.85, 2.35'' @ nl @ nl @ ''here''"
    by (simp add: ig)
  have "preg = []"
    using effg geo_scenario eg by auto
  with effg eg fg txg have second:
    "\<exists>opts. effects (snd (uploadMessageToChannel quiet_env ?wg (Some 7) (geo_message 5) ?pg)) =
      [SendMessage 7 opts] \<and>
     opt_file opts = None \<and>
     opt_message opts = glyph_geo @ '' Location: 48.85, 2.35'' @ nl @ nl @ ''here''"
    by auto

  have fw: "local_file ?w ?p = None \<and>
      client_forwardMessages quiet_env (emit (ForwardMessages 7 (msg_id (poll_message 3))) ?w) 7
        (poll_message 3) = Inr True"
    using l by (simp add: quiet_env_def)
  from upload_structured_payload
    [where env = quiet_env and w = ?w and mediaPath = ?p, OF t m g] fw
  have "uploadMessageToChannel quiet_env ?w (Some 7) (poll_message 3) ?p =
      (Inr True, emit (ForwardMessages 7 (msg_id (poll_message 3))) ?w)"
    by blast
  then have third: "uploadMessageToChannel quiet_env ?w (Some 7) (poll_message 3) ?p =
      (Inr True, emit (ForwardMessages 7 3) ?w)"
    by (simp add: i)
  from first second third show ?thesis by blast
qed

text \<open>
  C4 as stated fails: with no local file, a poll that can be forwarded is forwarded, and
  no text message is sent.
\<close>

theorem upload_forwards_poll:
  "uploadMessageToChannel quiet_env (upload_world {''export/1/3_poll.json''}) (Some 7)
     (poll_message 3) (Some ''export/1/3_file.JPG'') =
   (Inr True, (upload_world {''export/1/3_poll.json''})\<lparr>effects := [ForwardMessages 7 3]\<rparr>)"
  by (simp add: pipeline_defs concrete_defs)

section \<open>Properties of the batch scheduler\<close>

lemma enumerate_shift:
  "map (\<lambda>(index, msg). h (i + index) msg) (enumerate j xs) =
   map (\<lambda>(index, msg). h index msg) (enumerate (i + j) xs)"
  by (induction xs arbitrary: j) simp_all

lemma start_batches_events:
  "snd (start_batches msgs i ps tr) =
     tr @ map (\<lambda>(index, msg). Invoke msg index (length msgs)) (enumerate i (drop i msgs))"
proof (induction msgs i ps tr rule: start_batches.induct)
  case (1 msgs i ps tr)
  show ?case
  proof (cases "i < length msgs")
    case False
    then show ?thesis by (simp add: start_batches.simps)
  next
    case True
    let ?batch = "take MAX_PARALLEL_PROCESS (drop i msgs)"
    let ?f = "\<lambda>(index, msg). Invoke msg index (length msgs)"
    have split: "drop i msgs = ?batch @ drop (i + MAX_PARALLEL_PROCESS) msgs"
      by (metis append_take_drop_id drop_drop add.commute)
    have len: "i + length ?batch = i + MAX_PARALLEL_PROCESS \<or> drop (i + MAX_PARALLEL_PROCESS) msgs = []"
      by auto
    have tail: "enumerate (i + length ?batch) (drop (i + MAX_PARALLEL_PROCESS) msgs) =
        enumerate (i + MAX_PARALLEL_PROCESS) (drop (i + MAX_PARALLEL_PROCESS) msgs)"
      using len by auto
    have "map ?f (enumerate i (drop i msgs)) =
        map ?f (enumerate i ?batch) @
        map ?f (enumerate (i + MAX_PARALLEL_PROCESS) (drop (i + MAX_PARALLEL_PROCESS) msgs))"
      by (subst split) (simp only: enumerate_append_eq map_append tail)
    moreover have "map (\<lambda>(index, msg). Invoke msg (i + index) (length msgs)) (enumerate 0 ?batch) =
        map ?f (enumerate i ?batch)"
      using enumerate_shift [of "\<lambda>index msg. Invoke msg index (length msgs)" i 0 ?batch] by simp
    ultimately show ?thesis
      using True 1 by (subst start_batches.simps) (simp add: Let_def)
  qed
qed

lemma start_batches_batches:
  "concat (fst (start_batches msgs i ps tr)) = concat ps @ drop i msgs \<and>
   (\<forall>b \<in> set (fst (start_batches msgs i ps tr)) - set ps.
      b \<noteq> [] \<and> length b \<le> MAX_PARALLEL_PROCESS)"
proof (induction msgs i ps tr rule: start_batches.induct)
  case (1 msgs i ps tr)
  show ?case
  proof (cases "i < length msgs")
    case False
    then show ?thesis by (simp add: start_batches.simps)
  next
    case True
    let ?batch = "take MAX_PARALLEL_PROCESS (drop i msgs)"
    have split: "drop i msgs = ?batch @ drop (i + MAX_PARALLEL_PROCESS) msgs"
      by (metis append_take_drop_id drop_drop add.commute)
    have ne: "?batch \<noteq> []" using True by (simp add: MAX_PARALLEL_PROCESS_def)
    have eq: "start_batches msgs i ps tr =
        start_batches msgs (i + MAX_PARALLEL_PROCESS) (ps @ [?batch])
          (tr @ map (\<lambda>(index, msg). Invoke msg (i + index) (length msgs)) (enumerate 0 ?batch))"
      using True by (subst start_batches.simps) (simp add: Let_def)
    from 1 [OF True refl refl] have
      c: "concat (fst (start_batches msgs i ps tr)) =
          concat (ps @ [?batch]) @ drop (i + MAX_PARALLEL_PROCESS) msgs"
      and b: "\<forall>b \<in> set (fst (start_batches msgs i ps tr)) - set (ps @ [?batch]).
          b \<noteq> [] \<and> length b \<le> MAX_PARALLEL_PROCESS"
      unfolding eq by simp_all
    from c split have "concat (fst (start_batches msgs i ps tr)) = concat ps @ drop i msgs"
      by simp
    moreover have "\<forall>b \<in> set (fst (start_batches msgs i ps tr)) - set ps.
        b \<noteq> [] \<and> length b \<le> MAX_PARALLEL_PROCESS"
      using b ne by auto
    ultimately show ?thesis by blast
  qed
qed

lemma await_batches_events:
  "await_batches ps i tr =
     tr @ concat (map (\<lambda>k. AwaitBatch k #
                         (if int k < int (length ps) - 1 then [Sleep RATE_LIMIT_DELAY] else []))
                    [i..<length ps])"
proof (induction "length ps - i" arbitrary: i tr)
  case 0
  then show ?case by (simp add: await_batches.simps)
next
  case (Suc n)
  then have lt: "i < length ps" and n: "n = length ps - (i + 1)" by simp_all
  have "await_batches ps i tr =
      await_batches ps (i + 1)
        (tr @ [AwaitBatch i] @
         (if int i < int (length ps) - 1 then [Sleep RATE_LIMIT_DELAY] else []))"
    using lt by (subst await_batches.simps) simp
  then show ?case
    using Suc.hyps(1) [OF n] lt by (simp add: upt_conv_Cons)
qed

lemma process_batches_events:
  "snd (process_batches msgs) =
     map (\<lambda>(index, msg). Invoke msg index (length msgs)) (enumerate 0 msgs) @
     concat (map (\<lambda>k. AwaitBatch k #
                   (if int k < int (length (fst (process_batches msgs))) - 1
                    then [Sleep RATE_LIMIT_DELAY] else []))
              [0..<length (fst (process_batches msgs))])"
  using start_batches_events [of msgs 0 "[]" "[]"]
  by (simp add: process_batches_def await_batches_events case_prod_beta)

lemma process_batches_batches:
  "concat (fst (process_batches msgs)) = msgs \<and>
   (\<forall>b \<in> set (fst (process_batches msgs)). b \<noteq> [] \<and> length b \<le> MAX_PARALLEL_PROCESS)"
  using start_batches_batches [of msgs 0 "[]" "[]"]
  by (simp add: process_batches_def case_prod_beta)

text \<open>
  C1 on a page of seven photo messages. The batches are of sizes 5 and 2 and the delay
  comes once, between the two waits. But all seven invocations, those of the second
  batch included, are started in the first pass, before the first batch is awaited; and
  each of them is suspended at an \<^verbatim>\<open>await\<close> of its own download, so no invocation of the
  first batch has finished when those of the second batch start.
\<close>

theorem process_batches_seven:
  "process_batches seven_messages =
     ([map photo_message [1, 2, 3, 4, 5], map photo_message [6, 7]],
      [Invoke (photo_message 1) 0 7, Invoke (photo_message 2) 1 7, Invoke (photo_message 3) 2 7,
       Invoke (photo_message 4) 3 7, Invoke (photo_message 5) 4 7, Invoke (photo_message 6) 5 7,
       Invoke (photo_message 7) 6 7, AwaitBatch 0, Sleep 1500, AwaitBatch 1]) \<and>
   list_all (suspends False) seven_messages"
proof -
  have "list_all (suspends False) seven_messages"
    by (simp add: seven_messages_def suspends_def photo_message_def)
  moreover have "process_batches seven_messages =
     ([map photo_message [1, 2, 3, 4, 5], map photo_message [6, 7]],
      [Invoke (photo_message 1) 0 7, Invoke (photo_message 2) 1 7, Invoke (photo_message 3) 2 7,
       Invoke (photo_message 4) 3 7, Invoke (photo_message 5) 4 7, Invoke (photo_message 6) 5 7,
       Invoke (photo_message 7) 6 7, AwaitBatch 0, Sleep 1500, AwaitBatch 1])"
    by (simp add: process_batches_def seven_messages_def start_batches.simps await_batches.simps
        MAX_PARALLEL_PROCESS_def RATE_LIMIT_DELAY_def Let_def)
  ultimately show ?thesis by simp
qed

end
